theory Spec2Isabelle
  imports Main "HOL-Library.AList"
begin

section \<open>Path helpers of the Python standard library (POSIX flavour)\<close>

text \<open>
  \<open>rvm.py\<close> calls \<open>os.path.join\<close>, \<open>os.path.basename\<close> and \<open>os.path.splitext\<close>.
  They are modelled on strings as \<open>posixpath\<close> computes them: \<open>rfind\<close> is
  \<open>str.rfind\<close> for a one-character needle (\<open>-1\<close> when the character is absent),
  \<open>basename p\<close> is \<open>p[p.rfind('/') + 1:]\<close>, and \<open>splitext\<close> cuts at the last dot
  provided that dot comes after the last separator and is preceded, inside the file
  name, by at least one character that is not a dot.
\<close>

definition rfind :: "char \<Rightarrow> string \<Rightarrow> int" where
  "rfind c p =
     (if c \<in> set p
      then int (length p) - 1 - int (length (takeWhile (\<lambda>x. x \<noteq> c) (rev p)))
      else - 1)"

definition basename :: "string \<Rightarrow> string" where
  "basename p = drop (nat (rfind CHR ''/'' p + 1)) p"

definition splitext :: "string \<Rightarrow> string \<times> string" where
  "splitext p =
     (let sepIndex = rfind CHR ''/'' p;
          dotIndex = rfind CHR ''.'' p
      in if dotIndex > sepIndex \<and>
            (\<exists>i \<in> set [nat (sepIndex + 1) ..< nat dotIndex]. p ! i \<noteq> CHR ''.'')
         then (take (nat dotIndex) p, drop (nat dotIndex) p)
         else (p, []))"

definition path_join :: "string \<Rightarrow> string \<Rightarrow> string" where
  "path_join a b =
     (if b \<noteq> [] \<and> hd b = CHR ''/'' then b
      else if a = [] \<or> last a = CHR ''/'' then a @ b
      else a @ ''/'' @ b)"

definition starts_with :: "string \<Rightarrow> string \<Rightarrow> bool" where
  "starts_with s p = (take (length p) s = p)"

section \<open>Stack naming\<close>

definition STACK_PREFIX :: string where
  "STACK_PREFIX = ''rvm-provisioned''"

text \<open>\<open>_generate_stack_name\<close> (lines 141-144): the prefix, a dash, the template's base name.\<close>

definition generate_stack_name :: "string \<Rightarrow> string" where
  "generate_stack_name template_file =
     (let base_name = fst (splitext (basename template_file));
          stack_name = STACK_PREFIX @ ''-'' @ base_name
      in stack_name)"

text \<open>
  The name recorded for a (template file, account) pair in \<open>expected_stacks\<close> and in
  \<open>account_stacks[account_id]\<close> (lines 184, 188 and 193):
  \<open>f"{stack_name}-{account_id}"\<close> with \<open>stack_name = _generate_stack_name(template_file)\<close>.
\<close>

definition expected_stack_name :: "string \<Rightarrow> string \<Rightarrow> string" where
  "expected_stack_name template_file account_id =
     generate_stack_name template_file @ ''-'' @ account_id"

section \<open>Data model\<close>

text \<open>
  The manifest is whatever \<open>json.loads\<close> returns, and Python decides lines 153 and
  162-164 by the shape of that value. The shape is kept at three levels: the document,
  the value under its \<open>templates\<close> key, and each element of that value.

  \<^item> The document is a JSON object, with or without a \<open>templates\<close> key; a JSON array,
    of which only whether the string \<open>templates\<close> is one of its elements matters; a
    JSON string; or a scalar (\<open>null\<close>, a number, \<open>true\<close> or \<open>false\<close>).
  \<^item> The value under \<open>templates\<close> is an array of elements, a string, an object (of
    which only the keys matter) or a scalar. \<open>"templates": null\<close> is the scalar
    \<open>NoneType\<close>; it is not an absent key.
  \<^item> An element is a JSON object or something else.

  A scalar and an element that is not an object carry the name of their Python type
  (\<open>NoneType\<close>, \<open>int\<close>, \<open>float\<close>, \<open>bool\<close>, \<open>str\<close>, \<open>list\<close>), which appears in the
  interpreter's error messages.

  Inside an element that is an object, the two fields are typed as the manifest
  document specifies them: \<open>template_file\<close> a string and \<open>accounts\<close> a list of
  strings. \<open>None\<close> stands for a field that is absent or \<open>null\<close>: \<open>dict.get\<close> returns a
  false value in both cases, and lines 166 and 170 test no more than that. Fields of
  other types are outside the model.
\<close>

record template_config =
  tc_template_file :: "string option"
  tc_accounts :: "string list option"

datatype entry =
    EntryObject template_config
  | EntryNotObject string

datatype templates_value =
    TemplatesArray "entry list"
  | TemplatesString string
  | TemplatesObject "string list"
  | TemplatesScalar string

datatype manifest =
    ManifestObject "templates_value option"
  | ManifestArray bool
  | ManifestString string
  | ManifestScalar string

text \<open>The \<open>results\<close> dictionary of \<open>deploy_all\<close>: three lists in insertion order.\<close>

record results =
  success :: "string list"
  failed :: "string list"
  deleted :: "string list"

definition empty_results :: results where
  "empty_results = \<lparr>success = [], failed = [], deleted = []\<rparr>"

text \<open>
  Exceptions are values. Each carries \<open>str(e)\<close>. \<open>FileNotFoundError\<close> is the only class
  the source catches by name; \<open>KeyError\<close>, \<open>IndexError\<close>, \<open>TypeError\<close> and
  \<open>AttributeError\<close> are raised by the interpreter when the event or the manifest has
  not the shape the code expects; \<open>OtherError\<close> stands for every other subclass of
  \<open>Exception\<close> (a client error of the control plane, a JSON decoding error, a waiter
  timeout). The interpreter's messages are worded as CPython 3.12 words them.
\<close>

datatype exn =
    FileNotFoundError string
  | KeyError string
  | IndexError string
  | TypeError string
  | AttributeError string
  | OtherError string

fun exn_str :: "exn \<Rightarrow> string" where
  "exn_str (FileNotFoundError m) = m"
| "exn_str (KeyError m) = m"
| "exn_str (IndexError m) = m"
| "exn_str (TypeError m) = m"
| "exn_str (AttributeError m) = m"
| "exn_str (OtherError m) = m"

definition quoted :: "string \<Rightarrow> string" where
  "quoted x = [CHR 0x27] @ x @ [CHR 0x27]"

text \<open>
  What Python does with the manifest. \<open>has_templates\<close> is \<open>"templates" in manifest\<close>
  (line 153): a key test on an object, an element test on an array, a substring test
  on a string, a \<open>TypeError\<close> on a scalar. \<open>get_templates\<close> is \<open>manifest["templates"]\<close>
  (lines 162 and 218). \<open>iterate\<close> is what the \<open>for\<close> statement draws from that value:
  the elements of an array, the characters of a string, the keys of an object.
  \<open>templates_entries\<close> is the two together.
\<close>

definition is_substring :: "string \<Rightarrow> string \<Rightarrow> bool" where
  "is_substring p x = (\<exists>i \<in> set [0 ..< Suc (length x)]. take (length p) (drop i x) = p)"

fun has_templates :: "manifest \<Rightarrow> exn + bool" where
  "has_templates (ManifestObject v) = Inr (v \<noteq> None)"
| "has_templates (ManifestArray among) = Inr among"
| "has_templates (ManifestString x) = Inr (is_substring ''templates'' x)"
| "has_templates (ManifestScalar t) =
     Inl (TypeError (''argument of type '' @ quoted t @ '' is not iterable''))"

fun get_templates :: "manifest \<Rightarrow> exn + templates_value" where
  "get_templates (ManifestObject (Some v)) = Inr v"
| "get_templates (ManifestObject None) = Inl (KeyError (quoted ''templates''))"
| "get_templates (ManifestArray among) =
     Inl (TypeError ''list indices must be integers or slices, not str'')"
| "get_templates (ManifestString x) =
     Inl (TypeError (''string indices must be integers, not '' @ quoted ''str''))"
| "get_templates (ManifestScalar t) =
     Inl (TypeError (quoted t @ '' object is not subscriptable''))"

fun iterate :: "templates_value \<Rightarrow> exn + entry list" where
  "iterate (TemplatesArray elements) = Inr elements"
| "iterate (TemplatesString x) = Inr (map (\<lambda>c. EntryNotObject ''str'') x)"
| "iterate (TemplatesObject keys) = Inr (map (\<lambda>k. EntryNotObject ''str'') keys)"
| "iterate (TemplatesScalar t) = Inl (TypeError (quoted t @ '' object is not iterable''))"

definition templates_entries :: "manifest \<Rightarrow> exn + entry list" where
  "templates_entries manifest =
     (case get_templates manifest of Inl e \<Rightarrow> Inl e | Inr v \<Rightarrow> iterate v)"

text \<open>
  A \<open>boto3.Session\<close> obtained by \<open>_assume_role\<close> is scoped to one account; the model keeps
  that account id as the whole content of the session.
\<close>

datatype session = Session (session_account: string)

section \<open>Effects: remote calls and log records\<close>

text \<open>
  Every call that leaves the process is recorded in a trace, in program order, together
  with the log records of level WARNING and ERROR (records of level INFO are not
  modelled). A log record names the \<open>logger\<close> call that wrote it and carries the values
  interpolated into its message:

  \<^item> \<open>ListFailed\<close>: line 77, "Failed to list existing stacks: e"
  \<^item> \<open>DeleteFailed\<close>: line 99, "Failed to delete stack 'stack_name' in account account_id: e"
  \<^item> \<open>NoTemplatesSection\<close>: line 154, "No 'templates' section found in manifest"
  \<^item> \<open>MissingTemplateFile\<close>: line 167, "Template configuration missing 'template_file'"
  \<^item> \<open>NoAccounts\<close>: line 171, "No accounts specified for template template_file"
  \<^item> \<open>TemplateNotFound\<close>: line 180, "Template file not found: template_path"
  \<^item> \<open>OrphanCheckFailed\<close>: line 213, "Failed to check for orphaned stacks in account account_id: e"
  \<^item> \<open>DeployFailed\<close>: line 250, "Failed to deploy template_file to account account_id: e"
  \<^item> \<open>FailedDeployments\<close>: line 262, "Failed deployments: results['failed']"
  \<^item> \<open>ProcessingError\<close>: line 300, "Error processing deployment: e"
\<close>

datatype call =
    DownloadAndExtract string string
  | AssumeRole string string
  | ListStacks string "string list"
  | DeleteStack string string
  | WaitStackDeleteComplete string string
  | UpdateStack string string string "string list"
  | CreateStack string string string "string list"

datatype level = WARNING | ERROR

datatype log_site =
    ListFailed
  | DeleteFailed
  | NoTemplatesSection
  | MissingTemplateFile
  | NoAccounts
  | TemplateNotFound
  | OrphanCheckFailed
  | DeployFailed
  | FailedDeployments
  | ProcessingError

datatype event = Call call | Log level log_site "string list"

text \<open>
  The collaborators of the program, over a world \<open>'w\<close> that the remote calls may change.
  The files of the extracted bundle do not change during a run, so reading them is a
  function of the path alone: \<open>load_json\<close> is \<open>json.loads(open(path).read())\<close> and
  \<open>read_text\<close> is \<open>open(path).read()\<close>. A remote call returns \<open>Some e\<close> when it raises
  \<open>e\<close>. \<open>cfn_list_stacks\<close> returns the pages the paginator yields before it either
  ends (\<open>None\<close>) or raises (\<open>Some e\<close>); a page is its \<open>StackSummaries\<close>, a list of
  \<open>(StackName, StackStatus)\<close>. \<open>s3_download_extract\<close> stands for the whole of
  \<open>_download_and_extract_zip\<close> (lines 13-30) and returns the temporary directory.

  Python fixes no order in which a \<open>set\<close> is iterated. The order is the environment's
  too: \<open>set_rank\<close> ranks the elements of a set, given as the list of its elements in
  insertion order, and the set is iterated by ascending rank. Every order of the
  elements is the order of some ranking, and every ranking visits each element once.
\<close>

record 'w env =
  set_rank :: "string list \<Rightarrow> string \<Rightarrow> nat"
  load_json :: "string \<Rightarrow> exn + manifest"
  read_text :: "string \<Rightarrow> exn + string"
  s3_download_extract :: "string \<Rightarrow> string \<Rightarrow> 'w \<Rightarrow> (exn + string) \<times> 'w"
  sts_assume_role :: "string \<Rightarrow> string \<Rightarrow> 'w \<Rightarrow> exn option \<times> 'w"
  cfn_list_stacks ::
    "string \<Rightarrow> string list \<Rightarrow> 'w \<Rightarrow> ((string \<times> string) list list \<times> exn option) \<times> 'w"
  cfn_delete_stack :: "string \<Rightarrow> string \<Rightarrow> 'w \<Rightarrow> exn option \<times> 'w"
  cfn_wait_stack_delete_complete :: "string \<Rightarrow> string \<Rightarrow> 'w \<Rightarrow> exn option \<times> 'w"
  cfn_update_stack :: "string \<Rightarrow> string \<Rightarrow> string \<Rightarrow> string list \<Rightarrow> 'w \<Rightarrow> exn option \<times> 'w"
  cfn_create_stack :: "string \<Rightarrow> string \<Rightarrow> string \<Rightarrow> string list \<Rightarrow> 'w \<Rightarrow> exn option \<times> 'w"

text \<open>The state threaded through the program: the world and the trace so far.\<close>

type_synonym 'w st = "'w \<times> event list"

definition emit :: "event \<Rightarrow> 'w st \<Rightarrow> 'w st" where
  "emit e s = (fst s, snd s @ [e])"

definition remote :: "call \<Rightarrow> ('w \<Rightarrow> 'r \<times> 'w) \<Rightarrow> 'w st \<Rightarrow> 'r \<times> 'w st" where
  "remote c f s = (case f (fst s) of (r, w') \<Rightarrow> (r, (w', snd s @ [Call c])))"

section \<open>The functions of \<open>rvm.py\<close>\<close>

definition read_manifest :: "'w env \<Rightarrow> string \<Rightarrow> exn + manifest" where
  "read_manifest env manifest_file = load_json env manifest_file"

definition read_template_file :: "'w env \<Rightarrow> string \<Rightarrow> exn + string" where
  "read_template_file env template_file = read_text env template_file"

definition assume_role :: "'w env \<Rightarrow> string \<Rightarrow> string \<Rightarrow> 'w st \<Rightarrow> (exn + session) \<times> 'w st" where
  "assume_role env account_id role_name s =
     (let role_arn = ''arn:aws:iam::'' @ account_id @ '':role/'' @ role_name;
          session_name = ''rvm-deployment-'' @ account_id
      in case remote (AssumeRole role_arn session_name)
                     (sts_assume_role env role_arn session_name) s of
           (Some e, s1) \<Rightarrow> (Inl e, s1)
         | (None, s1) \<Rightarrow> (Inr (Session account_id), s1))"

definition ROLE_NAME :: string where
  "ROLE_NAME = ''RvmWorkflowRole''"

text \<open>
  \<open>_get_existing_stacks\<close> (lines 63-79). The dictionary is an association list in
  insertion order; \<open>existing_stacks[name] = status\<close> is \<open>AList.update\<close>. The \<open>except\<close>
  clause swallows the paginator's exception, so the function returns what it has
  collected so far and has no exceptional result (building the client object, which
  makes no remote call, is taken not to fail).
\<close>

definition STATUS_FILTER :: "string list" where
  "STATUS_FILTER = [''CREATE_COMPLETE'', ''UPDATE_COMPLETE'']"

definition add_page :: "(string \<times> string) list \<Rightarrow> (string \<times> string) list \<Rightarrow> (string \<times> string) list" where
  "add_page page existing_stacks =
     fold (\<lambda>stack ex. if starts_with (fst stack) STACK_PREFIX
                       then AList.update (fst stack) (snd stack) ex else ex)
          page existing_stacks"

definition collect_pages :: "(string \<times> string) list list \<Rightarrow> (string \<times> string) list" where
  "collect_pages pages = fold add_page pages []"

definition get_existing_stacks :: "'w env \<Rightarrow> session \<Rightarrow> 'w st \<Rightarrow> (string \<times> string) list \<times> 'w st" where
  "get_existing_stacks env session s =
     (case remote (ListStacks (session_account session) STATUS_FILTER)
                  (cfn_list_stacks env (session_account session) STATUS_FILTER) s of
        ((pages, None), s1) \<Rightarrow> (collect_pages pages, s1)
      | ((pages, Some e), s1) \<Rightarrow>
          (collect_pages pages, emit (Log WARNING ListFailed [exn_str e]) s1))"

text \<open>\<open>_delete_stack\<close> (lines 82-102): submit the deletion, then wait for it.\<close>

definition delete_stack :: "'w env \<Rightarrow> session \<Rightarrow> string \<Rightarrow> string \<Rightarrow> 'w st \<Rightarrow> bool \<times> 'w st" where
  "delete_stack env session stack_name account_id s =
     (case remote (DeleteStack (session_account session) stack_name)
                  (cfn_delete_stack env (session_account session) stack_name) s of
        (Some e, s1) \<Rightarrow>
          (False, emit (Log ERROR DeleteFailed [stack_name, account_id, exn_str e]) s1)
      | (None, s1) \<Rightarrow>
          (case remote (WaitStackDeleteComplete (session_account session) stack_name)
                       (cfn_wait_stack_delete_complete env (session_account session) stack_name) s1 of
             (Some e, s2) \<Rightarrow>
               (False, emit (Log ERROR DeleteFailed [stack_name, account_id, exn_str e]) s2)
           | (None, s2) \<Rightarrow> (True, s2)))"

text \<open>\<open>_deploy_stack\<close> (lines 105-138): update when the name is a key of \<open>existing_stacks\<close>, create otherwise.\<close>

definition CAPABILITIES :: "string list" where
  "CAPABILITIES = [''CAPABILITY_NAMED_IAM'']"

definition deploy_stack ::
  "'w env \<Rightarrow> session \<Rightarrow> string \<Rightarrow> string \<Rightarrow> string \<Rightarrow> (string \<times> string) list \<Rightarrow> 'w st
     \<Rightarrow> (exn + bool) \<times> 'w st" where
  "deploy_stack env session template_content stack_name account_id existing_stacks s =
     (if stack_name \<in> set (map fst existing_stacks)
      then (case remote (UpdateStack (session_account session) stack_name template_content CAPABILITIES)
                        (cfn_update_stack env (session_account session) stack_name template_content CAPABILITIES) s of
              (Some e, s1) \<Rightarrow> (Inl e, s1)
            | (None, s1) \<Rightarrow> (Inr True, s1))
      else (case remote (CreateStack (session_account session) stack_name template_content CAPABILITIES)
                        (cfn_create_stack env (session_account session) stack_name template_content CAPABILITIES) s of
              (Some e, s1) \<Rightarrow> (Inl e, s1)
            | (None, s1) \<Rightarrow> (Inr True, s1)))"

section \<open>\<open>deploy_all\<close>\<close>

text \<open>
  A Python \<open>set\<close> is kept as the list of its elements, without repetition, in
  insertion order. \<open>set_add\<close> is \<open>set.add\<close> and \<open>set_update\<close> is \<open>set.update\<close>.
  \<open>set_iter\<close> is the order in which a \<open>for\<close> statement visits the set.
\<close>

definition set_add :: "string \<Rightarrow> string list \<Rightarrow> string list" where
  "set_add x xs = (if x \<in> set xs then xs else xs @ [x])"

definition set_update :: "string list \<Rightarrow> string list \<Rightarrow> string list" where
  "set_update xs ys = fold set_add ys xs"

definition set_iter :: "'w env \<Rightarrow> string list \<Rightarrow> string list" where
  "set_iter env xs = sort_key (set_rank env xs) xs"

text \<open>The local variables that the first loop of \<open>deploy_all\<close> builds (lines 149 and 158-160).\<close>

record locals =
  l_results :: results
  l_expected_stacks :: "string list"
  l_all_accounts :: "string list"
  l_account_stacks :: "string \<rightharpoonup> string list"

definition init_locals :: locals where
  "init_locals =
     \<lparr>l_results = empty_results, l_expected_stacks = [], l_all_accounts = [],
      l_account_stacks = Map.empty\<rparr>"

text \<open>Lines 188-193, the body of the loop over the accounts of one entry.\<close>

definition track_account :: "string \<Rightarrow> string \<Rightarrow> locals \<Rightarrow> locals" where
  "track_account stack_name account_id l =
     l\<lparr>l_expected_stacks := set_add (stack_name @ ''-'' @ account_id) (l_expected_stacks l),
       l_account_stacks := (l_account_stacks l)
          (account_id \<mapsto> set_add (stack_name @ ''-'' @ account_id)
             (case l_account_stacks l account_id of None \<Rightarrow> [] | Some names \<Rightarrow> names))\<rparr>"

text \<open>
  Lines 163-193, the body of the first loop. \<open>template_config.get\<close> raises
  \<open>AttributeError\<close> when the element is not an object. \<open>not template_file\<close> holds
  for an absent key and for the empty string; \<open>not accounts\<close> for an absent key and
  for the empty list. Only \<open>FileNotFoundError\<close> is caught; any other exception of the
  read leaves \<open>deploy_all\<close>.
\<close>

definition no_get :: "string \<Rightarrow> exn" where
  "no_get t = AttributeError (quoted t @ '' object has no attribute '' @ quoted ''get'')"

definition scan_entry ::
  "'w env \<Rightarrow> string \<Rightarrow> entry \<Rightarrow> locals \<Rightarrow> 'w st \<Rightarrow> (exn + locals) \<times> 'w st" where
  "scan_entry env extracted_dir template_config l s =
     (case template_config of
        EntryNotObject t \<Rightarrow> (Inl (no_get t), s)
      | EntryObject config \<Rightarrow>
     (let accounts = (case tc_accounts config of None \<Rightarrow> [] | Some a \<Rightarrow> a)
      in case tc_template_file config of
           None \<Rightarrow> (Inr l, emit (Log WARNING MissingTemplateFile []) s)
         | Some template_file \<Rightarrow>
             if template_file = [] then (Inr l, emit (Log WARNING MissingTemplateFile []) s)
             else if accounts = [] then (Inr l, emit (Log WARNING NoAccounts [template_file]) s)
             else (let template_path = path_join extracted_dir template_file
                   in (case read_template_file env template_path of
                         Inl (FileNotFoundError m) \<Rightarrow>
                           (Inr (l\<lparr>l_results := (l_results l)\<lparr>failed := failed (l_results l) @ accounts\<rparr>\<rparr>),
                            emit (Log WARNING TemplateNotFound [template_path]) s)
                       | Inl e \<Rightarrow> (Inl e, s)
                       | Inr template_content \<Rightarrow>
                           (let stack_name = generate_stack_name template_file;
                                l1 = l\<lparr>l_all_accounts := set_update (l_all_accounts l) accounts\<rparr>
                            in (Inr (fold (track_account stack_name) accounts l1), s))))))"

fun scan_templates ::
  "'w env \<Rightarrow> string \<Rightarrow> entry list \<Rightarrow> locals \<Rightarrow> 'w st \<Rightarrow> (exn + locals) \<times> 'w st" where
  "scan_templates env extracted_dir [] l s = (Inr l, s)"
| "scan_templates env extracted_dir (template_config # rest) l s =
     (case scan_entry env extracted_dir template_config l s of
        (Inl e, s1) \<Rightarrow> (Inl e, s1)
      | (Inr l1, s1) \<Rightarrow> scan_templates env extracted_dir rest l1 s1)"

text \<open>Lines 208-210: delete the orphans one by one; a deletion that fails is only logged.\<close>

fun delete_orphans ::
  "'w env \<Rightarrow> session \<Rightarrow> string \<Rightarrow> string list \<Rightarrow> results \<Rightarrow> 'w st \<Rightarrow> results \<times> 'w st" where
  "delete_orphans env session account_id [] res s = (res, s)"
| "delete_orphans env session account_id (stack_name # rest) res s =
     (case delete_stack env session stack_name account_id s of
        (True, s1) \<Rightarrow>
          delete_orphans env session account_id rest
            (res\<lparr>deleted := deleted res @ [stack_name @ '':'' @ account_id]\<rparr>) s1
      | (False, s1) \<Rightarrow> delete_orphans env session account_id rest res s1)"

text \<open>
  Line 205: \<open>set(existing_stacks.keys()) - expected_for_account\<close>, the elements of the
  difference; line 208 visits them in the order of \<open>set_iter\<close>.
\<close>

definition orphaned_stacks :: "(string \<times> string) list \<Rightarrow> string list \<Rightarrow> string list" where
  "orphaned_stacks existing_stacks expected_for_account =
     filter (\<lambda>name. name \<notin> set expected_for_account) (map fst existing_stacks)"

text \<open>
  Lines 198-215, the body of the second loop, for one account. The second component of
  the loop state is the dictionary \<open>account_existing_stacks\<close>.
\<close>

definition check_account ::
  "'w env \<Rightarrow> (string \<rightharpoonup> string list) \<Rightarrow> string
     \<Rightarrow> results \<times> (string \<rightharpoonup> (string \<times> string) list) \<Rightarrow> 'w st
     \<Rightarrow> (results \<times> (string \<rightharpoonup> (string \<times> string) list)) \<times> 'w st" where
  "check_account env account_stacks account_id ra s =
     (case assume_role env account_id ROLE_NAME s of
        (Inl e, s1) \<Rightarrow> (ra, emit (Log ERROR OrphanCheckFailed [account_id, exn_str e]) s1)
      | (Inr session, s1) \<Rightarrow>
          (case get_existing_stacks env session s1 of
             (existing_stacks, s2) \<Rightarrow>
               let account_existing_stacks = (snd ra)(account_id \<mapsto> existing_stacks);
                   expected_for_account =
                     (case account_stacks account_id of None \<Rightarrow> [] | Some names \<Rightarrow> names);
                   orphans = orphaned_stacks existing_stacks expected_for_account
               in (case delete_orphans env session account_id (set_iter env orphans) (fst ra) s2 of
                     (res, s3) \<Rightarrow> ((res, account_existing_stacks), s3))))"

fun check_accounts ::
  "'w env \<Rightarrow> (string \<rightharpoonup> string list) \<Rightarrow> string list
     \<Rightarrow> results \<times> (string \<rightharpoonup> (string \<times> string) list) \<Rightarrow> 'w st
     \<Rightarrow> (results \<times> (string \<rightharpoonup> (string \<times> string) list)) \<times> 'w st" where
  "check_accounts env account_stacks [] ra s = (ra, s)"
| "check_accounts env account_stacks (account_id # rest) ra s =
     (case check_account env account_stacks account_id ra s of
        (ra1, s1) \<Rightarrow> check_accounts env account_stacks rest ra1 s1)"

text \<open>
  Lines 238-253, the body of the loop over the accounts of one entry in the deploy
  phase. The name handed to \<open>_deploy_stack\<close> is \<open>stack_name\<close> as line 235 computed it.
\<close>

definition deploy_pair ::
  "'w env \<Rightarrow> string \<Rightarrow> string \<Rightarrow> string \<Rightarrow> (string \<rightharpoonup> (string \<times> string) list) \<Rightarrow> string
     \<Rightarrow> results \<Rightarrow> 'w st \<Rightarrow> results \<times> 'w st" where
  "deploy_pair env template_file template_content stack_name account_existing_stacks account_id res s =
     (case assume_role env account_id ROLE_NAME s of
        (Inl e, s1) \<Rightarrow>
          (res\<lparr>failed := failed res @ [template_file @ '':'' @ account_id]\<rparr>,
           emit (Log ERROR DeployFailed [template_file, account_id, exn_str e]) s1)
      | (Inr session, s1) \<Rightarrow>
          let existing_stacks =
                (case account_existing_stacks account_id of None \<Rightarrow> [] | Some ex \<Rightarrow> ex)
          in (case deploy_stack env session template_content stack_name account_id existing_stacks s1 of
                (Inl e, s2) \<Rightarrow>
                  (res\<lparr>failed := failed res @ [template_file @ '':'' @ account_id]\<rparr>,
                   emit (Log ERROR DeployFailed [template_file, account_id, exn_str e]) s2)
              | (Inr True, s2) \<Rightarrow>
                  (res\<lparr>success := success res @ [template_file @ '':'' @ account_id]\<rparr>, s2)
              | (Inr False, s2) \<Rightarrow>
                  (res\<lparr>failed := failed res @ [template_file @ '':'' @ account_id]\<rparr>, s2)))"

fun deploy_accounts ::
  "'w env \<Rightarrow> string \<Rightarrow> string \<Rightarrow> string \<Rightarrow> (string \<rightharpoonup> (string \<times> string) list) \<Rightarrow> string list
     \<Rightarrow> results \<Rightarrow> 'w st \<Rightarrow> results \<times> 'w st" where
  "deploy_accounts env template_file template_content stack_name aes [] res s = (res, s)"
| "deploy_accounts env template_file template_content stack_name aes (account_id # rest) res s =
     (case deploy_pair env template_file template_content stack_name aes account_id res s of
        (res1, s1) \<Rightarrow> deploy_accounts env template_file template_content stack_name aes rest res1 s1)"

text \<open>Lines 219-253, the body of the third loop.\<close>

definition deploy_entry ::
  "'w env \<Rightarrow> string \<Rightarrow> (string \<rightharpoonup> (string \<times> string) list) \<Rightarrow> entry
     \<Rightarrow> results \<Rightarrow> 'w st \<Rightarrow> (exn + results) \<times> 'w st" where
  "deploy_entry env extracted_dir account_existing_stacks template_config res s =
     (case template_config of
        EntryNotObject t \<Rightarrow> (Inl (no_get t), s)
      | EntryObject config \<Rightarrow>
     (let accounts = (case tc_accounts config of None \<Rightarrow> [] | Some a \<Rightarrow> a)
      in case tc_template_file config of
           None \<Rightarrow> (Inr res, s)
         | Some template_file \<Rightarrow>
             if template_file = [] then (Inr res, s)
             else if accounts = [] then (Inr res, s)
             else (let template_path = path_join extracted_dir template_file
                   in (case read_template_file env template_path of
                         Inl (FileNotFoundError m) \<Rightarrow> (Inr res, s)
                       | Inl e \<Rightarrow> (Inl e, s)
                       | Inr template_content \<Rightarrow>
                           (let stack_name = generate_stack_name template_file
                            in (case deploy_accounts env template_file template_content stack_name
                                       account_existing_stacks accounts res s of
                                  (res1, s1) \<Rightarrow> (Inr res1, s1)))))))"

fun deploy_templates ::
  "'w env \<Rightarrow> string \<Rightarrow> (string \<rightharpoonup> (string \<times> string) list) \<Rightarrow> entry list
     \<Rightarrow> results \<Rightarrow> 'w st \<Rightarrow> (exn + results) \<times> 'w st" where
  "deploy_templates env extracted_dir aes [] res s = (Inr res, s)"
| "deploy_templates env extracted_dir aes (template_config # rest) res s =
     (case deploy_entry env extracted_dir aes template_config res s of
        (Inl e, s1) \<Rightarrow> (Inl e, s1)
      | (Inr res1, s1) \<Rightarrow> deploy_templates env extracted_dir aes rest res1 s1)"

text \<open>
  The deploy phase (lines 217-253) and the summary (lines 261-262), from the point
  where the second loop has ended. \<open>manifest["templates"]\<close> is evaluated again at line
  218.
\<close>

definition deploy_phase ::
  "'w env \<Rightarrow> string \<Rightarrow> manifest \<Rightarrow> (string \<rightharpoonup> (string \<times> string) list)
     \<Rightarrow> results \<Rightarrow> 'w st \<Rightarrow> (exn + results) \<times> 'w st" where
  "deploy_phase env extracted_dir manifest account_existing_stacks res s =
     (case templates_entries manifest of
        Inl e \<Rightarrow> (Inl e, s)
      | Inr template_configs \<Rightarrow>
          (case deploy_templates env extracted_dir account_existing_stacks template_configs res s of
             (Inl e, s3) \<Rightarrow> (Inl e, s3)
           | (Inr res3, s3) \<Rightarrow>
               (Inr res3,
                if failed res3 \<noteq> []
                then emit (Log WARNING FailedDeployments (failed res3)) s3
                else s3)))"

text \<open>\<open>deploy_all\<close> (lines 147-266). \<open>Inl e\<close> is the exception \<open>e\<close> leaving the function.\<close>

definition deploy_all :: "'w env \<Rightarrow> string \<Rightarrow> 'w st \<Rightarrow> (exn + results) \<times> 'w st" where
  "deploy_all env extracted_dir s =
     (let manifest_path = path_join extracted_dir ''manifest.json''
      in case read_manifest env manifest_path of
           Inl e \<Rightarrow> (Inl e, s)
         | Inr manifest \<Rightarrow>
             (case has_templates manifest of
                Inl e \<Rightarrow> (Inl e, s)
              | Inr False \<Rightarrow> (Inr empty_results, emit (Log WARNING NoTemplatesSection []) s)
              | Inr True \<Rightarrow>
                  (case templates_entries manifest of
                     Inl e \<Rightarrow> (Inl e, s)
                   | Inr template_configs \<Rightarrow>
                       (case scan_templates env extracted_dir template_configs init_locals s of
                          (Inl e, s1) \<Rightarrow> (Inl e, s1)
                        | (Inr l, s1) \<Rightarrow>
                            (case check_accounts env (l_account_stacks l)
                                    (set_iter env (l_all_accounts l))
                                    (l_results l, Map.empty) s1 of
                               ((res2, account_existing_stacks), s2) \<Rightarrow>
                                 deploy_phase env extracted_dir manifest
                                   account_existing_stacks res2 s2)))))"

section \<open>\<open>lambda_handler\<close>\<close>

text \<open>
  The event carries \<open>Records\<close>, a list of S3 notification records, or lacks the key
  (\<open>None\<close>). The response body is kept structured instead of being serialised by
  \<open>json.dumps\<close>. \<open>event["Records"]\<close> on a missing key raises \<open>KeyError('Records')\<close>,
  whose \<open>str\<close> is the key in single quotes, and \<open>[0]\<close> on an empty list raises
  \<open>IndexError('list index out of range')\<close>.
\<close>

record s3_record =
  bucket_name :: string
  object_key :: string

record event_in =
  Records :: "s3_record list option"

datatype response_body =
    DeploymentCompleted "string list" "string list" "string list"
  | ErrorBody string

record response =
  statusCode :: int
  body :: response_body

definition handle_exception :: "exn \<Rightarrow> 'w st \<Rightarrow> response \<times> 'w st" where
  "handle_exception e s =
     (\<lparr>statusCode = 500, body = ErrorBody (exn_str e)\<rparr>,
      emit (Log ERROR ProcessingError [exn_str e]) s)"

definition lambda_handler :: "'w env \<Rightarrow> event_in \<Rightarrow> 'w st \<Rightarrow> response \<times> 'w st" where
  "lambda_handler env event s =
     (case Records event of
        None \<Rightarrow> handle_exception (KeyError ([CHR 0x27] @ ''Records'' @ [CHR 0x27])) s
      | Some [] \<Rightarrow> handle_exception (IndexError ''list index out of range'') s
      | Some (record0 # others) \<Rightarrow>
          let bucket = bucket_name record0;
              key = object_key record0
          in (case remote (DownloadAndExtract bucket key) (s3_download_extract env bucket key) s of
                (Inl e, s1) \<Rightarrow> handle_exception e s1
              | (Inr extracted_dir, s1) \<Rightarrow>
                  (case deploy_all env extracted_dir s1 of
                     (Inl e, s2) \<Rightarrow> handle_exception e s2
                   | (Inr res, s2) \<Rightarrow>
                       (\<lparr>statusCode = 200,
                         body = DeploymentCompleted (success res) (failed res) (deleted res)\<rparr>,
                        s2))))"

section \<open>Vocabulary for the properties\<close>

text \<open>
  \<open>grows P s s'\<close>: the trace of \<open>s'\<close> is the trace of \<open>s\<close> followed by events that all
  satisfy \<open>P\<close>.
\<close>

definition grows :: "(event \<Rightarrow> bool) \<Rightarrow> 'w st \<Rightarrow> 'w st \<Rightarrow> bool" where
  "grows P s s' = (\<exists>ext. snd s' = snd s @ ext \<and> list_all P ext)"

fun is_delete :: "event \<Rightarrow> bool" where
  "is_delete (Call (DeleteStack a n)) = True"
| "is_delete (Call (WaitStackDeleteComplete a n)) = True"
| "is_delete e = False"

fun is_deploy :: "event \<Rightarrow> bool" where
  "is_deploy (Call (UpdateStack a n b c)) = True"
| "is_deploy (Call (CreateStack a n b c)) = True"
| "is_deploy e = False"

fun is_call :: "event \<Rightarrow> bool" where
  "is_call (Call c) = True"
| "is_call (Log lv site args) = False"

fun is_download :: "event \<Rightarrow> bool" where
  "is_download (Call (DownloadAndExtract b k)) = True"
| "is_download e = False"

definition not_deploy :: "event \<Rightarrow> bool" where
  "not_deploy e = (\<not> is_deploy e)"

definition not_delete :: "event \<Rightarrow> bool" where
  "not_delete e = (\<not> is_delete e)"

definition not_download :: "event \<Rightarrow> bool" where
  "not_download e = (\<not> is_download e)"

text \<open>
  \<open>extends s s'\<close>: the trace of \<open>s'\<close> continues the trace of \<open>s\<close>. \<open>adds x s s'\<close>: it
  does, and the event \<open>x\<close> is among what was appended.
\<close>

definition extends :: "'w st \<Rightarrow> 'w st \<Rightarrow> bool" where
  "extends s s' = (\<exists>ext. snd s' = snd s @ ext)"

definition adds :: "event \<Rightarrow> 'w st \<Rightarrow> 'w st \<Rightarrow> bool" where
  "adds x s s' = (\<exists>ext. snd s' = snd s @ ext \<and> x \<in> set ext)"

text \<open>
  The expected stack set of an account in a run: \<open>account_stacks.get(account_id, set())\<close>
  of line 204, with \<open>account_stacks\<close> as the first loop builds it from the elements
  of the manifest.
\<close>

definition expected_for :: "'w env \<Rightarrow> string \<Rightarrow> entry list \<Rightarrow> 'w st \<Rightarrow> string \<Rightarrow> string list" where
  "expected_for env extracted_dir template_configs s account_id =
     (case fst (scan_templates env extracted_dir template_configs init_locals s) of
        Inl e \<Rightarrow> []
      | Inr l \<Rightarrow> (case l_account_stacks l account_id of None \<Rightarrow> [] | Some names \<Rightarrow> names))"

text \<open>The account whose control plane a remote call addresses.\<close>

fun event_account :: "event \<Rightarrow> string option" where
  "event_account (Call (ListStacks a f)) = Some a"
| "event_account (Call (DeleteStack a n)) = Some a"
| "event_account (Call (WaitStackDeleteComplete a n)) = Some a"
| "event_account (Call (UpdateStack a n b c)) = Some a"
| "event_account (Call (CreateStack a n b c)) = Some a"
| "event_account e = None"

definition is_delete_of :: "string \<Rightarrow> event \<Rightarrow> bool" where
  "is_delete_of a e = (is_delete e \<and> event_account e = Some a)"

definition is_deploy_of :: "string \<Rightarrow> event \<Rightarrow> bool" where
  "is_deploy_of a e = (is_deploy e \<and> event_account e = Some a)"

text \<open>The stack name of a \<open>delete_stack\<close> submission, and the names submitted for deletion in a trace.\<close>

fun delete_name :: "event \<Rightarrow> string option" where
  "delete_name (Call (DeleteStack a n)) = Some n"
| "delete_name e = None"

definition deleted_names :: "event list \<Rightarrow> string list" where
  "deleted_names evs = List.map_filter delete_name evs"

text \<open>The events a function appended: the trace after it, without the trace before it.\<close>

definition appended :: "'w st \<Rightarrow> 'w st \<Rightarrow> event list" where
  "appended s s' = drop (length (snd s)) (snd s')"

text \<open>
  The plan of an account as a run carried it out, read off the trace: the stack names
  for which a deletion, an update and a creation were submitted in that account.
\<close>

fun deleted_in :: "string \<Rightarrow> event \<Rightarrow> string option" where
  "deleted_in a (Call (DeleteStack a' n)) = (if a' = a then Some n else None)"
| "deleted_in a e = None"

fun updated_in :: "string \<Rightarrow> event \<Rightarrow> string option" where
  "updated_in a (Call (UpdateStack a' n b c)) = (if a' = a then Some n else None)"
| "updated_in a e = None"

fun created_in :: "string \<Rightarrow> event \<Rightarrow> string option" where
  "created_in a (Call (CreateStack a' n b c)) = (if a' = a then Some n else None)"
| "created_in a e = None"

definition deletes_of :: "string \<Rightarrow> event list \<Rightarrow> string list" where
  "deletes_of a tr = List.map_filter (deleted_in a) tr"

definition updates_of :: "string \<Rightarrow> event list \<Rightarrow> string list" where
  "updates_of a tr = List.map_filter (updated_in a) tr"

definition creates_of :: "string \<Rightarrow> event list \<Rightarrow> string list" where
  "creates_of a tr = List.map_filter (created_in a) tr"

section \<open>Scenarios\<close>

text \<open>
  Concrete collaborators on which the program is run below. The bundle is the object
  \<open>rvm.zip\<close> of the bucket \<open>configs\<close> and holds one template, \<open>net.yaml\<close>. Sets are
  iterated in insertion order. \<open>scripted_env\<close> has no state: every call to the
  control plane is accepted and the listing of each account is given by a table.
  \<open>cloud_env\<close> is a control plane that applies exactly what it is asked, at once: its
  world maps an account to the stacks it holds, with their status.
\<close>

definition bundle_dir :: string where
  "bundle_dir = ''/tmp/bundle''"

definition bundle_manifest :: "(exn + manifest) \<Rightarrow> string \<Rightarrow> exn + manifest" where
  "bundle_manifest m p =
     (if p = ''/tmp/bundle/manifest.json'' then m else Inl (FileNotFoundError p))"

definition bundle_files :: "string \<Rightarrow> exn + string" where
  "bundle_files p =
     (if p = ''/tmp/bundle/net.yaml'' then Inr ''Resources: {}''
      else Inl (FileNotFoundError p))"

definition bundle_download :: "string \<Rightarrow> string \<Rightarrow> 'w \<Rightarrow> (exn + string) \<times> 'w" where
  "bundle_download b k w =
     (if b = ''configs'' \<and> k = ''rvm.zip'' then (Inr bundle_dir, w)
      else (Inl (OtherError ''NoSuchKey''), w))"

definition scripted_env ::
  "(exn + manifest) \<Rightarrow> (string \<Rightarrow> (string \<times> string) list list \<times> exn option) \<Rightarrow> unit env" where
  "scripted_env m listing =
     \<lparr>set_rank = (\<lambda>xs x. 0),
      load_json = bundle_manifest m,
      read_text = bundle_files,
      s3_download_extract = bundle_download,
      sts_assume_role = (\<lambda>arn n w. (None, w)),
      cfn_list_stacks = (\<lambda>a f w. (listing a, w)),
      cfn_delete_stack = (\<lambda>a n w. (None, w)),
      cfn_wait_stack_delete_complete = (\<lambda>a n w. (None, w)),
      cfn_update_stack = (\<lambda>a n b c w. (None, w)),
      cfn_create_stack = (\<lambda>a n b c w. (None, w))\<rparr>"

type_synonym cloud = "(string \<times> (string \<times> string) list) list"

definition stacks_in :: "cloud \<Rightarrow> string \<Rightarrow> (string \<times> string) list" where
  "stacks_in w a = (case map_of w a of None \<Rightarrow> [] | Some stacks \<Rightarrow> stacks)"

definition cloud_env :: "(exn + manifest) \<Rightarrow> cloud env" where
  "cloud_env m =
     \<lparr>set_rank = (\<lambda>xs x. 0),
      load_json = bundle_manifest m,
      read_text = bundle_files,
      s3_download_extract = bundle_download,
      sts_assume_role = (\<lambda>arn n w. (None, w)),
      cfn_list_stacks =
        (\<lambda>a f w. (([filter (\<lambda>stack. snd stack \<in> set f) (stacks_in w a)], None), w)),
      cfn_delete_stack = (\<lambda>a n w. (None, AList.update a (AList.delete n (stacks_in w a)) w)),
      cfn_wait_stack_delete_complete = (\<lambda>a n w. (None, w)),
      cfn_update_stack =
        (\<lambda>a n b c w.
           if n \<in> set (map fst (stacks_in w a))
           then (None, AList.update a (AList.update n ''UPDATE_COMPLETE'' (stacks_in w a)) w)
           else (Some (OtherError ''ValidationError''), w)),
      cfn_create_stack =
        (\<lambda>a n b c w.
           if n \<in> set (map fst (stacks_in w a))
           then (Some (OtherError ''AlreadyExistsException''), w)
           else (None, AList.update a (stacks_in w a @ [(n, ''CREATE_COMPLETE'')]) w))\<rparr>"

text \<open>One template, \<open>net.yaml\<close>, for account 111.\<close>

definition net_manifest :: manifest where
  "net_manifest =
     ManifestObject (Some (TemplatesArray
       [EntryObject \<lparr>tc_template_file = Some ''net.yaml'', tc_accounts = Some [''111'']\<rparr>]))"

text \<open>A template file that is not in the bundle, for account 111, then \<open>net.yaml\<close> for account 222.\<close>

definition missing_manifest :: manifest where
  "missing_manifest =
     ManifestObject (Some (TemplatesArray
       [EntryObject \<lparr>tc_template_file = Some ''missing.yaml'', tc_accounts = Some [''111'']\<rparr>,
        EntryObject \<lparr>tc_template_file = Some ''net.yaml'', tc_accounts = Some [''222'']\<rparr>]))"

text \<open>Listings: nothing; one orphan in account 111; one orphan in account 111 and then a failure.\<close>

definition no_stacks :: "string \<Rightarrow> (string \<times> string) list list \<times> exn option" where
  "no_stacks a = ([], None)"

definition one_orphan :: "string \<Rightarrow> (string \<times> string) list list \<times> exn option" where
  "one_orphan a =
     (if a = ''111'' then ([[(''rvm-provisioned-old-111'', ''CREATE_COMPLETE'')]], None)
      else ([], None))"

definition failing_listing :: "string \<Rightarrow> (string \<times> string) list list \<times> exn option" where
  "failing_listing a =
     (if a = ''111''
      then ([[(''rvm-provisioned-old-111'', ''CREATE_COMPLETE'')]], Some (OtherError ''Throttling''))
      else ([], None))"

section \<open>Auxiliary lemmas\<close>

lemma append_sep_eq:
  assumes "c \<notin> set a1" "c \<notin> set a2" "xs @ c # a1 = ys @ c # a2"
  shows "xs = ys \<and> a1 = a2"
proof -
  have "takeWhile (\<lambda>x. x \<noteq> c) (rev (xs @ c # a1)) = rev a1"
    using assms(1) by (auto simp add: takeWhile_tail)
  moreover have "takeWhile (\<lambda>x. x \<noteq> c) (rev (ys @ c # a2)) = rev a2"
    using assms(2) by (auto simp add: takeWhile_tail)
  ultimately have "a1 = a2" using assms(3) by (metis rev_is_rev_conv)
  with assms(3) show ?thesis by simp
qed

lemma expected_stack_name_eq:
  "expected_stack_name f a = STACK_PREFIX @ ''-'' @ fst (splitext (basename f)) @ ''-'' @ a"
  by (simp add: expected_stack_name_def generate_stack_name_def Let_def)

subsection \<open>How the trace grows\<close>

lemma grows_refl: "grows P s s"
  by (simp add: grows_def)

lemma grows_trans: "grows P s s1 \<Longrightarrow> grows P s1 s2 \<Longrightarrow> grows P s s2"
  by (auto simp: grows_def)

lemma grows_emit: "P e \<Longrightarrow> grows P s (emit e s)"
  by (simp add: grows_def emit_def)

lemma grows_emit_after: "grows P s s1 \<Longrightarrow> P e \<Longrightarrow> grows P s (emit e s1)"
  by (auto simp: grows_def emit_def)

lemma grows_remoteE: "remote c f s = (r, s') \<Longrightarrow> P (Call c) \<Longrightarrow> grows P s s'"
  by (auto simp: grows_def remote_def split: prod.splits)

lemma grows_assume_role:
  assumes "assume_role env a r s = (x, s')" and "\<And>arn n. P (Call (AssumeRole arn n))"
  shows "grows P s s'"
  using assms unfolding assume_role_def Let_def
  by (auto split: prod.splits option.splits dest!: grows_remoteE[where P=P])

lemma grows_get_existing_stacks:
  assumes "get_existing_stacks env session s = (x, s')"
      and "\<And>a f. P (Call (ListStacks a f))" and "\<And>args. P (Log WARNING ListFailed args)"
  shows "grows P s s'"
  using assms unfolding get_existing_stacks_def
  by (auto split: prod.splits option.splits dest!: grows_remoteE[where P=P] intro: grows_emit_after)

lemma grows_delete_stack:
  assumes "delete_stack env session n a s = (x, s')"
      and "\<And>a n. P (Call (DeleteStack a n))" and "\<And>a n. P (Call (WaitStackDeleteComplete a n))"
      and "\<And>args. P (Log ERROR DeleteFailed args)"
  shows "grows P s s'"
  using assms unfolding delete_stack_def
  by (auto split: prod.splits option.splits dest!: grows_remoteE[where P=P]
           intro: grows_emit_after grows_trans)

lemma grows_deploy_stack:
  assumes "deploy_stack env session tc n a ex s = (x, s')"
      and "\<And>a n b c. P (Call (UpdateStack a n b c))" and "\<And>a n b c. P (Call (CreateStack a n b c))"
  shows "grows P s s'"
  using assms unfolding deploy_stack_def
  by (auto split: prod.splits option.splits if_splits dest!: grows_remoteE[where P=P])

subsection \<open>The ways through the body of the first and of the third loop\<close>

lemma scan_entry_cases:
  assumes "scan_entry env d x l s = (r, s')"
  obtains (not_object) t where "x = EntryNotObject t" "r = Inl (no_get t)" "s' = s"
    | (no_file) tc where "x = EntryObject tc"
        "tc_template_file tc = None \<or> tc_template_file tc = Some []"
        "r = Inr l" "s' = emit (Log WARNING MissingTemplateFile []) s"
    | (no_accounts) tc tf where "x = EntryObject tc" "tc_template_file tc = Some tf" "tf \<noteq> []"
        "tc_accounts tc = None \<or> tc_accounts tc = Some []"
        "r = Inr l" "s' = emit (Log WARNING NoAccounts [tf]) s"
    | (not_found) tc tf accts m where "x = EntryObject tc" "tc_template_file tc = Some tf"
        "tf \<noteq> []" "tc_accounts tc = Some accts" "accts \<noteq> []"
        "read_template_file env (path_join d tf) = Inl (FileNotFoundError m)"
        "r = Inr (l\<lparr>l_results := (l_results l)\<lparr>failed := failed (l_results l) @ accts\<rparr>\<rparr>)"
        "s' = emit (Log WARNING TemplateNotFound [path_join d tf]) s"
    | (unreadable) tc tf accts e where "x = EntryObject tc" "tc_template_file tc = Some tf"
        "tf \<noteq> []" "tc_accounts tc = Some accts" "accts \<noteq> []"
        "read_template_file env (path_join d tf) = Inl e" "r = Inl e" "s' = s"
    | (tracked) tc tf accts content where "x = EntryObject tc" "tc_template_file tc = Some tf"
        "tf \<noteq> []" "tc_accounts tc = Some accts" "accts \<noteq> []"
        "read_template_file env (path_join d tf) = Inr content"
        "r = Inr (fold (track_account (generate_stack_name tf)) accts
                   (l\<lparr>l_all_accounts := set_update (l_all_accounts l) accts\<rparr>))"
        "s' = s"
proof (cases x)
  case (EntryNotObject t)
  with assms have "r = Inl (no_get t)" "s' = s" by (simp_all add: scan_entry_def)
  with EntryNotObject show ?thesis by (rule not_object)
next
  case (EntryObject tc)
  show ?thesis
  proof (cases "tc_template_file tc = None \<or> tc_template_file tc = Some []")
    case True
    with assms EntryObject have "r = Inr l" "s' = emit (Log WARNING MissingTemplateFile []) s"
      by (auto simp: scan_entry_def Let_def)
    with EntryObject True show ?thesis by (rule no_file)
  next
    case False
    then obtain tf where tf: "tc_template_file tc = Some tf" "tf \<noteq> []" by auto
    show ?thesis
    proof (cases "tc_accounts tc = None \<or> tc_accounts tc = Some []")
      case True
      with assms EntryObject tf have "r = Inr l" "s' = emit (Log WARNING NoAccounts [tf]) s"
        by (auto simp: scan_entry_def Let_def)
      with EntryObject tf True show ?thesis using no_accounts by blast
    next
      case False
      then obtain accts where ac: "tc_accounts tc = Some accts" "accts \<noteq> []" by auto
      show ?thesis
      proof (cases "read_template_file env (path_join d tf)")
        case (Inr content)
        with assms EntryObject tf ac have
          "r = Inr (fold (track_account (generate_stack_name tf)) accts
                   (l\<lparr>l_all_accounts := set_update (l_all_accounts l) accts\<rparr>))" "s' = s"
          by (simp_all add: scan_entry_def Let_def)
        with EntryObject tf ac Inr show ?thesis using tracked by blast
      next
        case (Inl e)
        show ?thesis
        proof (cases "\<exists>m. e = FileNotFoundError m")
          case True
          then obtain m where m: "e = FileNotFoundError m" by blast
          with assms EntryObject tf ac Inl have
            "r = Inr (l\<lparr>l_results := (l_results l)\<lparr>failed := failed (l_results l) @ accts\<rparr>\<rparr>)"
            "s' = emit (Log WARNING TemplateNotFound [path_join d tf]) s"
            by (simp_all add: scan_entry_def Let_def)
          with EntryObject tf ac Inl m show ?thesis using not_found by blast
        next
          case False
          with assms EntryObject tf ac Inl have "r = Inl e" "s' = s"
            by (cases e; simp add: scan_entry_def Let_def)+
          with EntryObject tf ac Inl show ?thesis using unreadable by blast
        qed
      qed
    qed
  qed
qed

lemma deploy_entry_cases:
  assumes "deploy_entry env d aes x res s = (r, s')"
  obtains (not_object) t where "x = EntryNotObject t" "r = Inl (no_get t)" "s' = s"
    | (skipped) tc where "x = EntryObject tc" "r = Inr res" "s' = s"
        "tc_template_file tc = None \<or> tc_template_file tc = Some []
         \<or> tc_accounts tc = None \<or> tc_accounts tc = Some []
         \<or> (\<exists>tf m. tc_template_file tc = Some tf
                \<and> read_template_file env (path_join d tf) = Inl (FileNotFoundError m))"
    | (unreadable) tc tf accts e where "x = EntryObject tc" "tc_template_file tc = Some tf"
        "tf \<noteq> []" "tc_accounts tc = Some accts" "accts \<noteq> []"
        "read_template_file env (path_join d tf) = Inl e" "r = Inl e" "s' = s"
    | (deployed) tc tf accts content res1 where "x = EntryObject tc"
        "tc_template_file tc = Some tf" "tf \<noteq> []" "tc_accounts tc = Some accts" "accts \<noteq> []"
        "read_template_file env (path_join d tf) = Inr content"
        "deploy_accounts env tf content (generate_stack_name tf) aes accts res s = (res1, s')"
        "r = Inr res1"
proof (cases x)
  case (EntryNotObject t)
  with assms have "r = Inl (no_get t)" "s' = s" by (simp_all add: deploy_entry_def)
  with EntryNotObject show ?thesis by (rule not_object)
next
  case (EntryObject tc)
  show ?thesis
  proof (cases "tc_template_file tc = None \<or> tc_template_file tc = Some []")
    case True
    with assms EntryObject have "r = Inr res" "s' = s"
      by (auto simp: deploy_entry_def Let_def)
    with EntryObject True show ?thesis using skipped by blast
  next
    case False
    then obtain tf where tf: "tc_template_file tc = Some tf" "tf \<noteq> []" by auto
    show ?thesis
    proof (cases "tc_accounts tc = None \<or> tc_accounts tc = Some []")
      case True
      with assms EntryObject tf have "r = Inr res" "s' = s"
        by (auto simp: deploy_entry_def Let_def)
      with EntryObject True show ?thesis using skipped by blast
    next
      case False
      then obtain accts where ac: "tc_accounts tc = Some accts" "accts \<noteq> []" by auto
      show ?thesis
      proof (cases "read_template_file env (path_join d tf)")
        case (Inr content)
        obtain res1 s1 where da:
          "deploy_accounts env tf content (generate_stack_name tf) aes accts res s = (res1, s1)"
          by (cases "deploy_accounts env tf content (generate_stack_name tf) aes accts res s")
        with assms EntryObject tf ac Inr have "r = Inr res1" "s' = s1"
          by (simp_all add: deploy_entry_def Let_def)
        with EntryObject tf ac Inr da show ?thesis using deployed by blast
      next
        case (Inl e)
        show ?thesis
        proof (cases "\<exists>m. e = FileNotFoundError m")
          case True
          then obtain m where m: "e = FileNotFoundError m" by blast
          with assms EntryObject tf ac Inl have "r = Inr res" "s' = s"
            by (simp_all add: deploy_entry_def Let_def)
          with EntryObject tf Inl m show ?thesis using skipped by blast
        next
          case False
          with assms EntryObject tf ac Inl have "r = Inl e" "s' = s"
            by (cases e; simp add: deploy_entry_def Let_def)+
          with EntryObject tf ac Inl show ?thesis using unreadable by blast
        qed
      qed
    qed
  qed
qed

lemma grows_scan_entry:
  assumes "scan_entry env d tc l s = (x, s')" and "\<And>lv t args. P (Log lv t args)"
  shows "grows P s s'"
  using assms(1)
  by (cases rule: scan_entry_cases) (simp_all add: grows_refl grows_emit assms(2))

lemma grows_scan_templates:
  assumes "scan_templates env d tcs l s = (x, s')" and "\<And>lv t args. P (Log lv t args)"
  shows "grows P s s'"
  using assms
proof (induction tcs arbitrary: l s)
  case Nil
  then show ?case by (simp add: grows_refl)
next
  case (Cons tc tcs)
  obtain y s1 where e: "scan_entry env d tc l s = (y, s1)"
    by (cases "scan_entry env d tc l s")
  have g1: "grows P s s1" using grows_scan_entry[OF e] Cons.prems(2) by blast
  show ?case
  proof (cases y)
    case (Inl ex)
    with e Cons.prems(1) have "s' = s1" by simp
    with g1 show ?thesis by simp
  next
    case (Inr l1)
    with e Cons.prems(1) have "scan_templates env d tcs l1 s1 = (x, s')" by simp
    from Cons.IH[OF this Cons.prems(2)] g1 show ?thesis by (blast intro: grows_trans)
  qed
qed

lemma grows_delete_orphans:
  assumes "delete_orphans env session a ns res s = (x, s')"
      and "\<And>a n. P (Call (DeleteStack a n))" and "\<And>a n. P (Call (WaitStackDeleteComplete a n))"
      and "\<And>args. P (Log ERROR DeleteFailed args)"
  shows "grows P s s'"
  using assms
proof (induction ns arbitrary: res s)
  case Nil
  then show ?case by (simp add: grows_refl)
next
  case (Cons n ns)
  obtain ok s1 where e: "delete_stack env session n a s = (ok, s1)"
    by (cases "delete_stack env session n a s")
  have g1: "grows P s s1" using grows_delete_stack[OF e] Cons.prems(2-4) by blast
  obtain res1 where "delete_orphans env session a ns res1 s1 = (x, s')"
    using e Cons.prems(1) by (cases ok) auto
  from Cons.IH[OF this Cons.prems(2-4)] g1 show ?case by (blast intro: grows_trans)
qed

lemma grows_check_account:
  assumes "check_account env acs a ra s = (x, s')"
      and "\<And>arn n. P (Call (AssumeRole arn n))" and "\<And>a f. P (Call (ListStacks a f))"
      and "\<And>a n. P (Call (DeleteStack a n))" and "\<And>a n. P (Call (WaitStackDeleteComplete a n))"
      and "\<And>lv t args. P (Log lv t args)"
  shows "grows P s s'"
proof -
  obtain r1 s1 where ar: "assume_role env a ROLE_NAME s = (r1, s1)"
    by (cases "assume_role env a ROLE_NAME s")
  have g1: "grows P s s1" by (rule grows_assume_role[OF ar]) (rule assms(2))
  show ?thesis
  proof (cases r1)
    case (Inl e)
    with ar assms(1) have "s' = emit (Log ERROR OrphanCheckFailed [a, exn_str e]) s1"
      by (simp add: check_account_def)
    with g1 show ?thesis by (simp add: grows_emit_after assms(6))
  next
    case (Inr session)
    obtain ex s2 where ge: "get_existing_stacks env session s1 = (ex, s2)"
      by (cases "get_existing_stacks env session s1")
    have g2: "grows P s1 s2"
      by (rule grows_get_existing_stacks[OF ge]) (simp_all add: assms(3,6))
    obtain res3 where "delete_orphans env session a
        (set_iter env (orphaned_stacks ex (case acs a of None \<Rightarrow> [] | Some names \<Rightarrow> names)))
        (fst ra) s2 = (res3, s')"
      using assms(1) ar Inr ge by (auto simp: check_account_def Let_def split: prod.splits)
    then have g3: "grows P s2 s'"
      by (rule grows_delete_orphans) (simp_all add: assms(4,5,6))
    from g1 g2 g3 show ?thesis by (blast intro: grows_trans)
  qed
qed

lemma grows_check_accounts:
  assumes "check_accounts env acs as ra s = (x, s')"
      and "\<And>arn n. P (Call (AssumeRole arn n))" and "\<And>a f. P (Call (ListStacks a f))"
      and "\<And>a n. P (Call (DeleteStack a n))" and "\<And>a n. P (Call (WaitStackDeleteComplete a n))"
      and "\<And>lv t args. P (Log lv t args)"
  shows "grows P s s'"
  using assms(1)
proof (induction as arbitrary: ra s)
  case Nil
  then show ?case by (simp add: grows_refl)
next
  case (Cons a as)
  obtain ra1 s1 where e: "check_account env acs a ra s = (ra1, s1)"
    by (cases "check_account env acs a ra s")
  with Cons.prems have "check_accounts env acs as ra1 s1 = (x, s')" by simp
  from Cons.IH[OF this] grows_check_account[OF e assms(2-6)] show ?case
    by (blast intro: grows_trans)
qed

lemma grows_deploy_pair:
  assumes "deploy_pair env tf tc sn aes a res s = (x, s')"
      and "\<And>arn n. P (Call (AssumeRole arn n))"
      and "\<And>a n b c. P (Call (UpdateStack a n b c))" and "\<And>a n b c. P (Call (CreateStack a n b c))"
      and "\<And>lv t args. P (Log lv t args)"
  shows "grows P s s'"
proof -
  obtain r1 s1 where ar: "assume_role env a ROLE_NAME s = (r1, s1)"
    by (cases "assume_role env a ROLE_NAME s")
  have g1: "grows P s s1" by (rule grows_assume_role[OF ar]) (rule assms(2))
  show ?thesis
  proof (cases r1)
    case (Inl e)
    with ar assms(1) have "s' = emit (Log ERROR DeployFailed [tf, a, exn_str e]) s1"
      by (auto simp: deploy_pair_def)
    with g1 show ?thesis by (simp add: grows_emit_after assms(5))
  next
    case (Inr session)
    obtain r2 s2 where ds:
      "deploy_stack env session tc sn a (case aes a of None \<Rightarrow> [] | Some ex \<Rightarrow> ex) s1 = (r2, s2)"
      by (cases "deploy_stack env session tc sn a (case aes a of None \<Rightarrow> [] | Some ex \<Rightarrow> ex) s1")
    have g2: "grows P s1 s2"
      by (rule grows_deploy_stack[OF ds]) (simp_all add: assms(3,4))
    have "s' = s2 \<or> (\<exists>e. s' = emit (Log ERROR DeployFailed [tf, a, exn_str e]) s2)"
      using assms(1) ar Inr ds by (auto simp: deploy_pair_def Let_def split: sum.splits bool.splits)
    with g1 g2 show ?thesis by (auto intro: grows_trans grows_emit_after simp: assms(5))
  qed
qed

lemma grows_deploy_accounts:
  assumes "deploy_accounts env tf tc sn aes as res s = (x, s')"
      and "\<And>arn n. P (Call (AssumeRole arn n))"
      and "\<And>a n b c. P (Call (UpdateStack a n b c))" and "\<And>a n b c. P (Call (CreateStack a n b c))"
      and "\<And>lv t args. P (Log lv t args)"
  shows "grows P s s'"
  using assms(1)
proof (induction as arbitrary: res s)
  case Nil
  then show ?case by (simp add: grows_refl)
next
  case (Cons a as)
  obtain r1 s1 where e: "deploy_pair env tf tc sn aes a res s = (r1, s1)"
    by (cases "deploy_pair env tf tc sn aes a res s")
  with Cons.prems have "deploy_accounts env tf tc sn aes as r1 s1 = (x, s')" by simp
  from Cons.IH[OF this] grows_deploy_pair[OF e assms(2-5)] show ?case
    by (blast intro: grows_trans)
qed

lemma grows_deploy_entry:
  assumes "deploy_entry env d aes tc res s = (x, s')"
      and "\<And>arn n. P (Call (AssumeRole arn n))"
      and "\<And>a n b c. P (Call (UpdateStack a n b c))" and "\<And>a n b c. P (Call (CreateStack a n b c))"
      and "\<And>lv t args. P (Log lv t args)"
  shows "grows P s s'"
  using assms(1)
proof (cases rule: deploy_entry_cases)
  case (deployed tc tf accts content res1)
  from grows_deploy_accounts[OF deployed(7) assms(2-5)] show ?thesis .
qed (simp_all add: grows_refl)

lemma grows_deploy_templates:
  assumes "deploy_templates env d aes tcs res s = (x, s')"
      and "\<And>arn n. P (Call (AssumeRole arn n))"
      and "\<And>a n b c. P (Call (UpdateStack a n b c))" and "\<And>a n b c. P (Call (CreateStack a n b c))"
      and "\<And>lv t args. P (Log lv t args)"
  shows "grows P s s'"
  using assms(1)
proof (induction tcs arbitrary: res s)
  case Nil
  then show ?case by (simp add: grows_refl)
next
  case (Cons tc tcs)
  obtain y s1 where e: "deploy_entry env d aes tc res s = (y, s1)"
    by (cases "deploy_entry env d aes tc res s")
  have g1: "grows P s s1" using grows_deploy_entry[OF e assms(2-5)] .
  show ?case
  proof (cases y)
    case (Inl ex)
    with e Cons.prems have "s' = s1" by simp
    with g1 show ?thesis by simp
  next
    case (Inr r1)
    with e Cons.prems have "deploy_templates env d aes tcs r1 s1 = (x, s')" by simp
    from Cons.IH[OF this] g1 show ?thesis by (blast intro: grows_trans)
  qed
qed

subsection \<open>The ways through \<open>deploy_all\<close>\<close>

lemma deploy_phase_cases:
  assumes "deploy_phase env d m aes res s = (r, s')"
  obtains (iter) e where "templates_entries m = Inl e" "r = Inl e" "s' = s"
    | (raised) es e where "templates_entries m = Inr es"
        "deploy_templates env d aes es res s = (Inl e, s')" "r = Inl e"
    | (completed) es res3 s3 where "templates_entries m = Inr es"
        "deploy_templates env d aes es res s = (Inr res3, s3)" "r = Inr res3"
        "s' = (if failed res3 \<noteq> [] then emit (Log WARNING FailedDeployments (failed res3)) s3 else s3)"
proof (cases "templates_entries m")
  case (Inl e)
  with assms have "r = Inl e" "s' = s" by (simp_all add: deploy_phase_def)
  with Inl show ?thesis by (rule iter)
next
  case (Inr es)
  obtain y s3 where dt: "deploy_templates env d aes es res s = (y, s3)"
    by (cases "deploy_templates env d aes es res s")
  show ?thesis
  proof (cases y)
    case (Inl e)
    with assms Inr dt have "r = Inl e" "s' = s3" by (simp_all add: deploy_phase_def)
    with Inr dt Inl show ?thesis using raised by blast
  next
    case res3: (Inr res3)
    with assms Inr dt have "r = Inr res3"
      "s' = (if failed res3 \<noteq> [] then emit (Log WARNING FailedDeployments (failed res3)) s3 else s3)"
      by (simp_all add: deploy_phase_def)
    with Inr dt res3 show ?thesis using completed by blast
  qed
qed

lemma deploy_all_cases:
  assumes "deploy_all env d s = (r, s')"
  obtains (unread) e where "read_manifest env (path_join d ''manifest.json'') = Inl e"
        "r = Inl e" "s' = s"
    | (shape) m e where "read_manifest env (path_join d ''manifest.json'') = Inr m"
        "has_templates m = Inl e" "r = Inl e" "s' = s"
    | (absent) m where "read_manifest env (path_join d ''manifest.json'') = Inr m"
        "has_templates m = Inr False" "r = Inr empty_results"
        "s' = emit (Log WARNING NoTemplatesSection []) s"
    | (uniterable) m e where "read_manifest env (path_join d ''manifest.json'') = Inr m"
        "has_templates m = Inr True" "templates_entries m = Inl e" "r = Inl e" "s' = s"
    | (scan_raised) m es e where "read_manifest env (path_join d ''manifest.json'') = Inr m"
        "has_templates m = Inr True" "templates_entries m = Inr es"
        "scan_templates env d es init_locals s = (Inl e, s')" "r = Inl e"
    | (scanned) m es l s1 res2 aes s2 where
        "read_manifest env (path_join d ''manifest.json'') = Inr m"
        "has_templates m = Inr True" "templates_entries m = Inr es"
        "scan_templates env d es init_locals s = (Inr l, s1)"
        "check_accounts env (l_account_stacks l) (set_iter env (l_all_accounts l))
           (l_results l, Map.empty) s1 = ((res2, aes), s2)"
        "deploy_phase env d m aes res2 s2 = (r, s')"
proof (cases "read_manifest env (path_join d ''manifest.json'')")
  case (Inl e)
  with assms have "r = Inl e" "s' = s" by (simp_all add: deploy_all_def Let_def)
  with Inl show ?thesis by (rule unread)
next
  case m: (Inr m)
  show ?thesis
  proof (cases "has_templates m")
    case (Inl e)
    with assms m have "r = Inl e" "s' = s" by (simp_all add: deploy_all_def Let_def)
    with m Inl show ?thesis using shape by blast
  next
    case (Inr b)
    show ?thesis
    proof (cases b)
      case False
      with assms m Inr have "r = Inr empty_results"
        "s' = emit (Log WARNING NoTemplatesSection []) s"
        by (simp_all add: deploy_all_def Let_def)
      with m Inr False show ?thesis using absent by auto
    next
      case True
      with Inr have ht: "has_templates m = Inr True" by simp
      show ?thesis
      proof (cases "templates_entries m")
        case (Inl e)
        with assms m ht have "r = Inl e" "s' = s" by (simp_all add: deploy_all_def Let_def)
        with m ht Inl show ?thesis using uniterable by blast
      next
        case es: (Inr es)
        obtain y s1 where sc: "scan_templates env d es init_locals s = (y, s1)"
          by (cases "scan_templates env d es init_locals s")
        show ?thesis
        proof (cases y)
          case (Inl e)
          with assms m ht es sc have "r = Inl e" "s' = s1"
            by (simp_all add: deploy_all_def Let_def)
          with m ht es sc Inl show ?thesis using scan_raised by blast
        next
          case l: (Inr l)
          obtain res2 aes s2 where ck:
            "check_accounts env (l_account_stacks l) (set_iter env (l_all_accounts l))
               (l_results l, Map.empty) s1 = ((res2, aes), s2)"
            by (cases "check_accounts env (l_account_stacks l) (set_iter env (l_all_accounts l))
               (l_results l, Map.empty) s1") auto
          with assms m ht es sc l have "deploy_phase env d m aes res2 s2 = (r, s')"
            by (simp add: deploy_all_def Let_def)
          with m ht es sc l ck show ?thesis using scanned by blast
        qed
      qed
    qed
  qed
qed

lemma grows_deploy_phase:
  assumes "deploy_phase env d m aes res s = (r, s')"
      and "\<And>arn n. P (Call (AssumeRole arn n))"
      and "\<And>a n b c. P (Call (UpdateStack a n b c))" and "\<And>a n b c. P (Call (CreateStack a n b c))"
      and "\<And>lv t args. P (Log lv t args)"
  shows "grows P s s'"
  using assms(1)
proof (cases rule: deploy_phase_cases)
  case (iter e)
  then show ?thesis by (simp add: grows_refl)
next
  case (raised es e)
  from grows_deploy_templates[OF raised(2) assms(2-5)] show ?thesis .
next
  case (completed es res3 s3)
  from grows_deploy_templates[OF completed(2) assms(2-5)] have "grows P s s3" .
  with completed(4) show ?thesis by (auto intro: grows_emit_after simp: assms(5))
qed

text \<open>
  A run of \<open>deploy_all\<close> has two stretches: up to the end of the second loop only
  log records, role assumptions, listings, deletions and waits are appended, and
  from there on only log records, role assumptions, updates and creations.
\<close>

lemma deploy_all_stretches:
  assumes "deploy_all env d s = (r, s')"
      and "\<And>arn n. P (Call (AssumeRole arn n))" and "\<And>a f. P (Call (ListStacks a f))"
      and "\<And>a n. P (Call (DeleteStack a n))" and "\<And>a n. P (Call (WaitStackDeleteComplete a n))"
      and "\<And>lv t args. P (Log lv t args)"
      and "\<And>arn n. Q (Call (AssumeRole arn n))"
      and "\<And>a n b c. Q (Call (UpdateStack a n b c))" and "\<And>a n b c. Q (Call (CreateStack a n b c))"
      and "\<And>lv t args. Q (Log lv t args)"
  shows "\<exists>s2. grows P s s2 \<and> grows Q s2 s'"
  using assms(1)
proof (cases rule: deploy_all_cases)
  case (unread e)
  then show ?thesis using grows_refl by blast
next
  case (shape m e)
  then show ?thesis using grows_refl by blast
next
  case (absent m)
  then have "grows P s s'" by (simp add: grows_emit assms(6))
  then show ?thesis using grows_refl by blast
next
  case (uniterable m e)
  then show ?thesis using grows_refl by blast
next
  case (scan_raised m es e)
  have "grows P s s'" by (rule grows_scan_templates[OF scan_raised(4)]) (rule assms(6))
  then show ?thesis using grows_refl by blast
next
  case (scanned m es l s1 res2 aes s2)
  have g1: "grows P s s1" by (rule grows_scan_templates[OF scanned(4)]) (rule assms(6))
  have g2: "grows P s1 s2" by (rule grows_check_accounts[OF scanned(5) assms(2-6)])
  have g3: "grows Q s2 s'" by (rule grows_deploy_phase[OF scanned(6) assms(7-10)])
  from g1 g2 have "grows P s s2" by (rule grows_trans)
  with g3 show ?thesis by blast
qed

lemma deploy_all_phases:
  assumes "deploy_all env d s = (r, s')"
  shows "\<exists>s2. grows not_deploy s s2 \<and> grows not_delete s2 s'"
  by (rule deploy_all_stretches[OF assms]) (simp_all add: not_deploy_def not_delete_def)

lemma deploy_all_no_download:
  assumes "deploy_all env d s = (r, s')"
  shows "grows not_download s s'"
proof -
  have "\<exists>s2. grows not_download s s2 \<and> grows not_download s2 s'"
    by (rule deploy_all_stretches[OF assms]) (simp_all add: not_download_def)
  then show ?thesis by (blast intro: grows_trans)
qed

subsection \<open>What one call of \<open>_deploy_stack\<close> and of \<open>_delete_stack\<close> appends\<close>

lemma appended_same: "appended s s = []"
  by (simp add: appended_def)

lemma appended_grows: "snd s' = snd s @ ext \<Longrightarrow> appended s s' = ext"
  by (simp add: appended_def)

lemma deploy_stack_appended:
  "appended s (snd (deploy_stack env session tc n a ex s)) =
     [Call (if n \<in> set (map fst ex)
            then UpdateStack (session_account session) n tc CAPABILITIES
            else CreateStack (session_account session) n tc CAPABILITIES)]"
  by (auto simp: deploy_stack_def remote_def appended_def split: prod.splits option.splits)

lemma deploy_stack_result:
  "fst (deploy_stack env session tc n a ex s) = Inr b \<Longrightarrow> b"
  by (auto simp: deploy_stack_def split: prod.splits option.splits if_splits)

section \<open>The claims\<close>

text \<open>
  C8, as amended. The name is a function of the template file and the account id alone.
  For account ids without a dash, two pairs get the same name exactly when the account
  ids are equal and the template files have the same base name (the file name without
  its directories and its extension). Distinct pairs therefore can collide: two
  template files that differ only in directory or extension get one name.
\<close>

theorem stack_name_equal_iff:
  assumes "CHR ''-'' \<notin> set a1" and "CHR ''-'' \<notin> set a2"
  shows "expected_stack_name f1 a1 = expected_stack_name f2 a2 \<longleftrightarrow>
         fst (splitext (basename f1)) = fst (splitext (basename f2)) \<and> a1 = a2"
proof
  assume eq: "expected_stack_name f1 a1 = expected_stack_name f2 a2"
  have "(STACK_PREFIX @ ''-'' @ fst (splitext (basename f1))) @ CHR ''-'' # a1
      = (STACK_PREFIX @ ''-'' @ fst (splitext (basename f2))) @ CHR ''-'' # a2"
    using eq by (simp add: expected_stack_name_eq)
  from append_sep_eq[OF assms this]
  show "fst (splitext (basename f1)) = fst (splitext (basename f2)) \<and> a1 = a2" by simp
next
  assume "fst (splitext (basename f1)) = fst (splitext (basename f2)) \<and> a1 = a2"
  then show "expected_stack_name f1 a1 = expected_stack_name f2 a2"
    by (simp add: expected_stack_name_eq)
qed

theorem stack_name_equal_iff_witness:
  "CHR ''-'' \<notin> set ''111'' \<and> CHR ''-'' \<notin> set ''222'' \<and>
   (expected_stack_name ''net.yaml'' ''111'' = expected_stack_name ''net.yaml'' ''222'' \<longleftrightarrow>
    fst (splitext (basename ''net.yaml'')) = fst (splitext (basename ''net.yaml'')) \<and>
    ''111'' = ''222'')"
proof -
  have h1: "CHR ''-'' \<notin> set ''111''" by simp
  have h2: "CHR ''-'' \<notin> set ''222''" by simp
  show ?thesis
    using h1 h2 stack_name_equal_iff[OF h1 h2, of "''net.yaml''" "''net.yaml''"] by simp
qed

text \<open>
  The claim as stated fails: \<open>a/net.yaml\<close> and \<open>b/net.json\<close> are distinct template
  references, and for account 111 both are named \<open>rvm-provisioned-net-111\<close>.
\<close>

theorem stack_name_collision:
  "(''a/net.yaml'', ''111'') \<noteq> (''b/net.json'', ''111'') \<and>
   expected_stack_name ''a/net.yaml'' ''111'' = ''rvm-provisioned-net-111'' \<and>
   expected_stack_name ''b/net.json'' ''111'' = ''rvm-provisioned-net-111''"
  by code_simp

text \<open>
  C9. \<open>_deploy_stack\<close> never returns \<open>False\<close>. In the deploy loop a pair therefore has
  one of two outcomes: it is appended to \<open>success\<close> and no log record is written, or it
  is appended to \<open>failed\<close> by the exception handler, whose error record is the last
  event. The \<open>else\<close> branch, which appends to \<open>failed\<close> without a log record, is never
  taken.
\<close>

theorem deploy_stack_never_False:
  "fst (deploy_stack env session tc sn a ex s) \<noteq> Inr False
   \<and> ((\<exists>s'. deploy_pair env tf tc sn aes a res s
              = (res\<lparr>success := success res @ [tf @ '':'' @ a]\<rparr>, s')
            \<and> list_all is_call (appended s s'))
      \<or> (\<exists>e s1. deploy_pair env tf tc sn aes a res s
              = (res\<lparr>failed := failed res @ [tf @ '':'' @ a]\<rparr>,
                 emit (Log ERROR DeployFailed [tf, a, exn_str e]) s1)))"
proof
  show "fst (deploy_stack env session tc sn a ex s) \<noteq> Inr False"
    using deploy_stack_result by blast
next
  obtain r1 s1 where ar: "assume_role env a ROLE_NAME s = (r1, s1)"
    by (cases "assume_role env a ROLE_NAME s")
  have g1: "grows is_call s s1" by (rule grows_assume_role[OF ar]) simp
  show "(\<exists>s'. deploy_pair env tf tc sn aes a res s
              = (res\<lparr>success := success res @ [tf @ '':'' @ a]\<rparr>, s')
            \<and> list_all is_call (appended s s'))
      \<or> (\<exists>e s1. deploy_pair env tf tc sn aes a res s
              = (res\<lparr>failed := failed res @ [tf @ '':'' @ a]\<rparr>,
                 emit (Log ERROR DeployFailed [tf, a, exn_str e]) s1))"
  proof (cases r1)
    case (Inl e)
    with ar have
      "deploy_pair env tf tc sn aes a res s
         = (res\<lparr>failed := failed res @ [tf @ '':'' @ a]\<rparr>,
            emit (Log ERROR DeployFailed [tf, a, exn_str e]) s1)"
      by (simp add: deploy_pair_def)
    then show ?thesis by blast
  next
    case (Inr sess)
    obtain r2 s2 where ds:
      "deploy_stack env sess tc sn a (case aes a of None \<Rightarrow> [] | Some ex \<Rightarrow> ex) s1 = (r2, s2)"
      by (cases "deploy_stack env sess tc sn a (case aes a of None \<Rightarrow> [] | Some ex \<Rightarrow> ex) s1")
    have g2: "grows is_call s1 s2" by (rule grows_deploy_stack[OF ds]) simp_all
    show ?thesis
    proof (cases r2)
      case (Inl e)
      with ar Inr ds have
        "deploy_pair env tf tc sn aes a res s
           = (res\<lparr>failed := failed res @ [tf @ '':'' @ a]\<rparr>,
              emit (Log ERROR DeployFailed [tf, a, exn_str e]) s2)"
        by (simp add: deploy_pair_def Let_def)
      then show ?thesis by blast
    next
      case b: (Inr b)
      with ds have "fst (deploy_stack env sess tc sn a (case aes a of None \<Rightarrow> [] | Some ex \<Rightarrow> ex) s1) = Inr b"
        by simp
      then have "b" by (rule deploy_stack_result)
      with b ar Inr ds have
        "deploy_pair env tf tc sn aes a res s = (res\<lparr>success := success res @ [tf @ '':'' @ a]\<rparr>, s2)"
        by (simp add: deploy_pair_def Let_def)
      moreover from g1 g2 have "grows is_call s s2" by (rule grows_trans)
      then have "list_all is_call (appended s s2)" by (auto simp: grows_def appended_def)
      ultimately show ?thesis by blast
    qed
  qed
qed

text \<open>
  C7, as amended. When Python finds no \<open>templates\<close> in the manifest (a JSON object
  without that key is the case in point), \<open>deploy_all\<close> returns the empty result,
  writes one warning and makes no remote call. When the manifest cannot be read or
  parsed at all, \<open>deploy_all\<close> raises that exception without effect; so it does, with a
  \<open>TypeError\<close>, when the manifest is \<open>null\<close>, a number or a boolean, and when the value
  under \<open>templates\<close> is one of these. \<open>lambda_handler\<close> turns an exception of
  \<open>deploy_all\<close> into a response with \<open>statusCode\<close> 500 whose body is the error text.
\<close>

theorem malformed_manifest_outcomes:
  "(read_manifest env (path_join d ''manifest.json'') = Inr m \<and> has_templates m = Inr False \<longrightarrow>
      deploy_all env d s = (Inr empty_results, emit (Log WARNING NoTemplatesSection []) s))
   \<and> has_templates (ManifestObject None) = Inr False
   \<and> (read_manifest env (path_join d ''manifest.json'') = Inl e \<longrightarrow>
        deploy_all env d s = (Inl e, s))
   \<and> (read_manifest env (path_join d ''manifest.json'') = Inr (ManifestScalar t) \<longrightarrow>
        deploy_all env d s
          = (Inl (TypeError (''argument of type '' @ quoted t @ '' is not iterable'')), s))
   \<and> (read_manifest env (path_join d ''manifest.json'')
          = Inr (ManifestObject (Some (TemplatesScalar t))) \<longrightarrow>
        deploy_all env d s = (Inl (TypeError (quoted t @ '' object is not iterable'')), s))
   \<and> (s3_download_extract env b k (fst s0) = (Inr d, w1)
        \<and> deploy_all env d (w1, snd s0 @ [Call (DownloadAndExtract b k)]) = (Inl e, s2) \<longrightarrow>
        lambda_handler env \<lparr>Records = Some (\<lparr>bucket_name = b, object_key = k\<rparr> # others)\<rparr> s0
          = (\<lparr>statusCode = 500, body = ErrorBody (exn_str e)\<rparr>,
             emit (Log ERROR ProcessingError [exn_str e]) s2))"
  by (auto simp: deploy_all_def templates_entries_def lambda_handler_def handle_exception_def
                 remote_def Let_def)

theorem malformed_manifest_outcomes_witness:
  "(read_manifest (scripted_env (Inr (ManifestObject None)) no_stacks)
      (path_join bundle_dir ''manifest.json'') = Inr (ManifestObject None)
    \<and> has_templates (ManifestObject None) = Inr False
    \<and> deploy_all (scripted_env (Inr (ManifestObject None)) no_stacks) bundle_dir ((), [])
        = (Inr empty_results, ((), [Log WARNING NoTemplatesSection []])))
   \<and> (read_manifest (scripted_env (Inl (OtherError ''Expecting value'')) no_stacks)
        (path_join bundle_dir ''manifest.json'') = Inl (OtherError ''Expecting value'')
      \<and> deploy_all (scripted_env (Inl (OtherError ''Expecting value'')) no_stacks) bundle_dir ((), [])
          = (Inl (OtherError ''Expecting value''), ((), [])))
   \<and> (read_manifest (scripted_env (Inr (ManifestScalar ''NoneType'')) no_stacks)
        (path_join bundle_dir ''manifest.json'') = Inr (ManifestScalar ''NoneType'')
      \<and> deploy_all (scripted_env (Inr (ManifestScalar ''NoneType'')) no_stacks) bundle_dir ((), [])
          = (Inl (TypeError (''argument of type '' @ quoted ''NoneType'' @ '' is not iterable'')),
             ((), [])))
   \<and> (read_manifest
          (scripted_env (Inr (ManifestObject (Some (TemplatesScalar ''NoneType'')))) no_stacks)
          (path_join bundle_dir ''manifest.json'')
        = Inr (ManifestObject (Some (TemplatesScalar ''NoneType'')))
      \<and> deploy_all
          (scripted_env (Inr (ManifestObject (Some (TemplatesScalar ''NoneType'')))) no_stacks)
          bundle_dir ((), [])
          = (Inl (TypeError (quoted ''NoneType'' @ '' object is not iterable'')), ((), [])))
   \<and> (s3_download_extract (scripted_env (Inl (OtherError ''Expecting value'')) no_stacks)
          ''configs'' ''rvm.zip'' () = (Inr bundle_dir, ())
      \<and> deploy_all (scripted_env (Inl (OtherError ''Expecting value'')) no_stacks) bundle_dir
          ((), [Call (DownloadAndExtract ''configs'' ''rvm.zip'')])
          = (Inl (OtherError ''Expecting value''),
             ((), [Call (DownloadAndExtract ''configs'' ''rvm.zip'')]))
      \<and> lambda_handler (scripted_env (Inl (OtherError ''Expecting value'')) no_stacks)
          \<lparr>Records = Some [\<lparr>bucket_name = ''configs'', object_key = ''rvm.zip''\<rparr>]\<rparr> ((), [])
          = (\<lparr>statusCode = 500, body = ErrorBody ''Expecting value''\<rparr>,
             ((), [Call (DownloadAndExtract ''configs'' ''rvm.zip''),
                   Log ERROR ProcessingError [''Expecting value'']])))"
proof -
  let ?absent = "scripted_env (Inr (ManifestObject None)) no_stacks"
  let ?broken = "scripted_env (Inl (OtherError ''Expecting value'')) no_stacks"
  let ?null = "scripted_env (Inr (ManifestScalar ''NoneType'')) no_stacks"
  let ?nulltpl = "scripted_env (Inr (ManifestObject (Some (TemplatesScalar ''NoneType'')))) no_stacks"
  have path: "path_join bundle_dir ''manifest.json'' = ''/tmp/bundle/manifest.json''"
    by (simp add: path_join_def bundle_dir_def)
  have h1: "read_manifest ?absent (path_join bundle_dir ''manifest.json'') = Inr (ManifestObject None)"
    by (simp add: path read_manifest_def scripted_env_def bundle_manifest_def)
  have h2: "read_manifest ?broken (path_join bundle_dir ''manifest.json'')
      = Inl (OtherError ''Expecting value'')"
    by (simp add: path read_manifest_def scripted_env_def bundle_manifest_def)
  have h3: "read_manifest ?null (path_join bundle_dir ''manifest.json'')
      = Inr (ManifestScalar ''NoneType'')"
    by (simp add: path read_manifest_def scripted_env_def bundle_manifest_def)
  have h4: "read_manifest ?nulltpl (path_join bundle_dir ''manifest.json'')
      = Inr (ManifestObject (Some (TemplatesScalar ''NoneType'')))"
    by (simp add: path read_manifest_def scripted_env_def bundle_manifest_def)
  have h5: "s3_download_extract ?broken ''configs'' ''rvm.zip'' (fst ((), [])) = (Inr bundle_dir, ())"
    by (simp add: scripted_env_def bundle_download_def)
  have h0: "has_templates (ManifestObject None) = Inr False" by simp
  note i1 = malformed_manifest_outcomes[where env = ?absent and d = bundle_dir
      and m = "ManifestObject None" and s = "((), [])"]
  note i2 = malformed_manifest_outcomes[where env = ?broken and d = bundle_dir
      and e = "OtherError ''Expecting value''" and s = "((), [])"]
  note i3 = malformed_manifest_outcomes[where env = ?null and d = bundle_dir
      and t = "''NoneType''" and s = "((), [])"]
  note i4 = malformed_manifest_outcomes[where env = ?nulltpl and d = bundle_dir
      and t = "''NoneType''" and s = "((), [])"]
  note i5 = malformed_manifest_outcomes[where env = ?broken and d = bundle_dir
      and e = "OtherError ''Expecting value''"
      and s = "((), [Call (DownloadAndExtract ''configs'' ''rvm.zip'')])"
      and b = "''configs''" and k = "''rvm.zip''" and ?s0.0 = "((), [])" and ?w1.0 = "()"
      and ?s2.0 = "((), [Call (DownloadAndExtract ''configs'' ''rvm.zip'')])" and others = "[]"]
  from i1 h1 h0 have c1: "deploy_all ?absent bundle_dir ((), [])
        = (Inr empty_results, ((), [Log WARNING NoTemplatesSection []]))"
    by (simp add: emit_def)
  from i2 h2 have c2: "deploy_all ?broken bundle_dir ((), [])
          = (Inl (OtherError ''Expecting value''), ((), []))"
    by blast
  from i3 h3 have c3: "deploy_all ?null bundle_dir ((), [])
          = (Inl (TypeError (''argument of type '' @ quoted ''NoneType'' @ '' is not iterable'')),
             ((), []))"
    by blast
  from i4 h4 have c4: "deploy_all ?nulltpl bundle_dir ((), [])
          = (Inl (TypeError (quoted ''NoneType'' @ '' object is not iterable'')), ((), []))"
    by blast
  from i5 h2 have c5: "deploy_all ?broken bundle_dir
          ((), [Call (DownloadAndExtract ''configs'' ''rvm.zip'')])
          = (Inl (OtherError ''Expecting value''),
             ((), [Call (DownloadAndExtract ''configs'' ''rvm.zip'')]))"
    by blast
  from i5 h5 c5 have c6: "lambda_handler ?broken
          \<lparr>Records = Some [\<lparr>bucket_name = ''configs'', object_key = ''rvm.zip''\<rparr>]\<rparr> ((), [])
          = (\<lparr>statusCode = 500, body = ErrorBody ''Expecting value''\<rparr>,
             ((), [Call (DownloadAndExtract ''configs'' ''rvm.zip''),
                   Log ERROR ProcessingError [''Expecting value'']]))"
    by (simp add: emit_def)
  from h1 h0 c1 h2 c2 h3 c3 h4 c4 h5 c5 c6 show ?thesis by simp
qed

text \<open>
  The claim as stated fails: with a manifest that cannot be parsed, \<open>deploy_all\<close> does
  not produce an empty result, it raises the parser's exception.
\<close>

theorem unparsable_manifest_raises:
  "deploy_all (scripted_env (Inl (OtherError ''Expecting value'')) no_stacks) bundle_dir ((), [])
     = (Inl (OtherError ''Expecting value''), ((), []))"
  by code_simp

subsection \<open>The handler\<close>

lemma lambda_handler_downloads:
  "filter is_download (appended s (snd (lambda_handler env \<lparr>Records = Some (r # rs)\<rparr> s)))
     = [Call (DownloadAndExtract (bucket_name r) (object_key r))]"
proof -
  let ?c = "DownloadAndExtract (bucket_name r) (object_key r)"
  obtain x w1 where dl: "s3_download_extract env (bucket_name r) (object_key r) (fst s) = (x, w1)"
    by (cases "s3_download_extract env (bucket_name r) (object_key r) (fst s)")
  let ?s1 = "(w1, snd s @ [Call ?c])"
  have rm: "remote ?c (s3_download_extract env (bucket_name r) (object_key r)) s = (x, ?s1)"
    using dl by (simp add: remote_def)
  show ?thesis
  proof (cases x)
    case (Inl e)
    with rm show ?thesis
      by (simp add: lambda_handler_def Let_def handle_exception_def emit_def appended_def)
  next
    case (Inr dir)
    obtain y s2 where da: "deploy_all env dir ?s1 = (y, s2)"
      by (cases "deploy_all env dir ?s1")
    from deploy_all_no_download[OF da] obtain ext where
      ext: "snd s2 = (snd s @ [Call ?c]) @ ext" "list_all not_download ext"
      by (auto simp: grows_def)
    have nd: "filter is_download ext = []"
      using ext(2) by (auto simp: not_download_def list_all_iff filter_empty_conv)
    show ?thesis
    proof (cases y)
      case (Inl e)
      with rm Inr da ext nd show ?thesis
        by (simp add: lambda_handler_def Let_def handle_exception_def emit_def appended_def)
    next
      case res: (Inr res)
      with rm Inr da ext nd show ?thesis
        by (simp add: lambda_handler_def Let_def appended_def)
    qed
  qed
qed

text \<open>
  C10. The handler reads \<open>Records[0]\<close> only. An event with further records is handled
  exactly as the event with its first record alone, and the one download of the run
  is that of the first record's bucket and key. The directory that download returns
  is what \<open>deploy_all\<close> reconciles: the handler answers 200 with the three lists of
  that run of \<open>deploy_all\<close>, started in the state the download left; it answers 500
  with the error text when the download or that run raises, as it does when the
  manifest of that directory cannot be read. On the bundle with \<open>net.yaml\<close> for account
  111, an event with two records downloads the first, creates the stack and answers
  200 with \<open>net.yaml:111\<close> as the one success. Without \<open>Records\<close>, or with an empty list,
  the handler makes no remote call and returns \<open>statusCode\<close> 500 with the error text
  as body.
\<close>

theorem lambda_handler_first_record_only:
  "lambda_handler env \<lparr>Records = Some (r # rs)\<rparr> s = lambda_handler env \<lparr>Records = Some [r]\<rparr> s
   \<and> filter is_download (appended s (snd (lambda_handler env \<lparr>Records = Some (r # rs)\<rparr> s)))
       = [Call (DownloadAndExtract (bucket_name r) (object_key r))]
   \<and> (s3_download_extract env (bucket_name r) (object_key r) (fst s) = (Inl e, w1) \<longrightarrow>
        lambda_handler env \<lparr>Records = Some (r # rs)\<rparr> s
          = (\<lparr>statusCode = 500, body = ErrorBody (exn_str e)\<rparr>,
             (w1, snd s @ [Call (DownloadAndExtract (bucket_name r) (object_key r)),
                           Log ERROR ProcessingError [exn_str e]])))
   \<and> (s3_download_extract env (bucket_name r) (object_key r) (fst s) = (Inr dir, w1)
        \<and> deploy_all env dir (w1, snd s @ [Call (DownloadAndExtract (bucket_name r) (object_key r))])
            = (Inr res, s2) \<longrightarrow>
        lambda_handler env \<lparr>Records = Some (r # rs)\<rparr> s
          = (\<lparr>statusCode = 200,
              body = DeploymentCompleted (success res) (failed res) (deleted res)\<rparr>, s2))
   \<and> (s3_download_extract env (bucket_name r) (object_key r) (fst s) = (Inr dir, w1)
        \<and> deploy_all env dir (w1, snd s @ [Call (DownloadAndExtract (bucket_name r) (object_key r))])
            = (Inl e, s2) \<longrightarrow>
        lambda_handler env \<lparr>Records = Some (r # rs)\<rparr> s
          = (\<lparr>statusCode = 500, body = ErrorBody (exn_str e)\<rparr>,
             emit (Log ERROR ProcessingError [exn_str e]) s2))
   \<and> (s3_download_extract env (bucket_name r) (object_key r) (fst s) = (Inr dir, w1)
        \<and> read_manifest env (path_join dir ''manifest.json'') = Inl e \<longrightarrow>
        lambda_handler env \<lparr>Records = Some (r # rs)\<rparr> s
          = (\<lparr>statusCode = 500, body = ErrorBody (exn_str e)\<rparr>,
             (w1, snd s @ [Call (DownloadAndExtract (bucket_name r) (object_key r)),
                           Log ERROR ProcessingError [exn_str e]])))
   \<and> lambda_handler (scripted_env (Inr net_manifest) no_stacks)
        \<lparr>Records = Some [\<lparr>bucket_name = ''configs'', object_key = ''rvm.zip''\<rparr>,
                         \<lparr>bucket_name = ''other'', object_key = ''other.zip''\<rparr>]\<rparr> ((), [])
       = (\<lparr>statusCode = 200, body = DeploymentCompleted [''net.yaml:111''] [] []\<rparr>,
          ((),
           [Call (DownloadAndExtract ''configs'' ''rvm.zip''),
            Call (AssumeRole ''arn:aws:iam::111:role/RvmWorkflowRole'' ''rvm-deployment-111''),
            Call (ListStacks ''111'' [''CREATE_COMPLETE'', ''UPDATE_COMPLETE'']),
            Call (AssumeRole ''arn:aws:iam::111:role/RvmWorkflowRole'' ''rvm-deployment-111''),
            Call (CreateStack ''111'' ''rvm-provisioned-net'' ''Resources: {}''
                    [''CAPABILITY_NAMED_IAM''])]))
   \<and> lambda_handler env \<lparr>Records = None\<rparr> s
       = (\<lparr>statusCode = 500, body = ErrorBody ([CHR 0x27] @ ''Records'' @ [CHR 0x27])\<rparr>,
          (fst s, snd s @ [Log ERROR ProcessingError [[CHR 0x27] @ ''Records'' @ [CHR 0x27]]]))
   \<and> lambda_handler env \<lparr>Records = Some []\<rparr> s
       = (\<lparr>statusCode = 500, body = ErrorBody ''list index out of range''\<rparr>,
          (fst s, snd s @ [Log ERROR ProcessingError [''list index out of range'']]))"
proof -
  have run: "lambda_handler (scripted_env (Inr net_manifest) no_stacks)
        \<lparr>Records = Some [\<lparr>bucket_name = ''configs'', object_key = ''rvm.zip''\<rparr>,
                         \<lparr>bucket_name = ''other'', object_key = ''other.zip''\<rparr>]\<rparr> ((), [])
       = (\<lparr>statusCode = 200, body = DeploymentCompleted [''net.yaml:111''] [] []\<rparr>,
          ((),
           [Call (DownloadAndExtract ''configs'' ''rvm.zip''),
            Call (AssumeRole ''arn:aws:iam::111:role/RvmWorkflowRole'' ''rvm-deployment-111''),
            Call (ListStacks ''111'' [''CREATE_COMPLETE'', ''UPDATE_COMPLETE'']),
            Call (AssumeRole ''arn:aws:iam::111:role/RvmWorkflowRole'' ''rvm-deployment-111''),
            Call (CreateStack ''111'' ''rvm-provisioned-net'' ''Resources: {}''
                    [''CAPABILITY_NAMED_IAM''])]))"
    by code_simp
  have unread: "lambda_handler env \<lparr>Records = Some (r # rs)\<rparr> s
          = (\<lparr>statusCode = 500, body = ErrorBody (exn_str e)\<rparr>,
             (w1, snd s @ [Call (DownloadAndExtract (bucket_name r) (object_key r)),
                           Log ERROR ProcessingError [exn_str e]]))"
    if "s3_download_extract env (bucket_name r) (object_key r) (fst s) = (Inr dir, w1)"
       "read_manifest env (path_join dir ''manifest.json'') = Inl e"
    using that
    by (simp add: lambda_handler_def deploy_all_def handle_exception_def remote_def emit_def Let_def)
  show ?thesis
    using lambda_handler_downloads[of s env r rs] run unread
    by (simp add: lambda_handler_def handle_exception_def remote_def emit_def Let_def)
qed

theorem lambda_handler_first_record_only_witness:
  "(s3_download_extract (scripted_env (Inr net_manifest) no_stacks) ''other'' ''other.zip'' ()
      = (Inl (OtherError ''NoSuchKey''), ())
    \<and> lambda_handler (scripted_env (Inr net_manifest) no_stacks)
        \<lparr>Records = Some [\<lparr>bucket_name = ''other'', object_key = ''other.zip''\<rparr>,
                         \<lparr>bucket_name = ''configs'', object_key = ''rvm.zip''\<rparr>]\<rparr> ((), [])
        = (\<lparr>statusCode = 500, body = ErrorBody ''NoSuchKey''\<rparr>,
           ((), [Call (DownloadAndExtract ''other'' ''other.zip''),
                 Log ERROR ProcessingError [''NoSuchKey'']])))
   \<and> (s3_download_extract (scripted_env (Inr net_manifest) no_stacks) ''configs'' ''rvm.zip'' ()
        = (Inr bundle_dir, ())
      \<and> deploy_all (scripted_env (Inr net_manifest) no_stacks) bundle_dir
          ((), [Call (DownloadAndExtract ''configs'' ''rvm.zip'')])
        = (Inr \<lparr>success = [''net.yaml:111''], failed = [], deleted = []\<rparr>,
           ((),
            [Call (DownloadAndExtract ''configs'' ''rvm.zip''),
             Call (AssumeRole ''arn:aws:iam::111:role/RvmWorkflowRole'' ''rvm-deployment-111''),
             Call (ListStacks ''111'' [''CREATE_COMPLETE'', ''UPDATE_COMPLETE'']),
             Call (AssumeRole ''arn:aws:iam::111:role/RvmWorkflowRole'' ''rvm-deployment-111''),
             Call (CreateStack ''111'' ''rvm-provisioned-net'' ''Resources: {}''
                     [''CAPABILITY_NAMED_IAM''])]))
      \<and> lambda_handler (scripted_env (Inr net_manifest) no_stacks)
          \<lparr>Records = Some [\<lparr>bucket_name = ''configs'', object_key = ''rvm.zip''\<rparr>,
                           \<lparr>bucket_name = ''other'', object_key = ''other.zip''\<rparr>]\<rparr> ((), [])
        = (\<lparr>statusCode = 200, body = DeploymentCompleted [''net.yaml:111''] [] []\<rparr>,
           ((),
            [Call (DownloadAndExtract ''configs'' ''rvm.zip''),
             Call (AssumeRole ''arn:aws:iam::111:role/RvmWorkflowRole'' ''rvm-deployment-111''),
             Call (ListStacks ''111'' [''CREATE_COMPLETE'', ''UPDATE_COMPLETE'']),
             Call (AssumeRole ''arn:aws:iam::111:role/RvmWorkflowRole'' ''rvm-deployment-111''),
             Call (CreateStack ''111'' ''rvm-provisioned-net'' ''Resources: {}''
                     [''CAPABILITY_NAMED_IAM''])])))
   \<and> (s3_download_extract (scripted_env (Inl (OtherError ''Expecting value'')) no_stacks)
          ''configs'' ''rvm.zip'' () = (Inr bundle_dir, ())
      \<and> read_manifest (scripted_env (Inl (OtherError ''Expecting value'')) no_stacks)
          (path_join bundle_dir ''manifest.json'') = Inl (OtherError ''Expecting value'')
      \<and> deploy_all (scripted_env (Inl (OtherError ''Expecting value'')) no_stacks) bundle_dir
          ((), [Call (DownloadAndExtract ''configs'' ''rvm.zip'')])
        = (Inl (OtherError ''Expecting value''),
           ((), [Call (DownloadAndExtract ''configs'' ''rvm.zip'')]))
      \<and> lambda_handler (scripted_env (Inl (OtherError ''Expecting value'')) no_stacks)
          \<lparr>Records = Some [\<lparr>bucket_name = ''configs'', object_key = ''rvm.zip''\<rparr>]\<rparr> ((), [])
        = (\<lparr>statusCode = 500, body = ErrorBody ''Expecting value''\<rparr>,
           ((), [Call (DownloadAndExtract ''configs'' ''rvm.zip''),
                 Log ERROR ProcessingError [''Expecting value'']])))"
proof -
  let ?env = "scripted_env (Inr net_manifest) no_stacks"
  let ?broken = "scripted_env (Inl (OtherError ''Expecting value'')) no_stacks"
  let ?first = "\<lparr>bucket_name = ''configs'', object_key = ''rvm.zip''\<rparr>"
  let ?other = "\<lparr>bucket_name = ''other'', object_key = ''other.zip''\<rparr>"
  let ?dl = "Call (DownloadAndExtract ''configs'' ''rvm.zip'')"
  let ?res = "\<lparr>success = [''net.yaml:111''], failed = [], deleted = []\<rparr>"
  let ?tr = "[?dl,
             Call (AssumeRole ''arn:aws:iam::111:role/RvmWorkflowRole'' ''rvm-deployment-111''),
             Call (ListStacks ''111'' [''CREATE_COMPLETE'', ''UPDATE_COMPLETE'']),
             Call (AssumeRole ''arn:aws:iam::111:role/RvmWorkflowRole'' ''rvm-deployment-111''),
             Call (CreateStack ''111'' ''rvm-provisioned-net'' ''Resources: {}''
                     [''CAPABILITY_NAMED_IAM''])]"
  have h1: "s3_download_extract ?env (bucket_name ?other) (object_key ?other) (fst ((), []))
      = (Inl (OtherError ''NoSuchKey''), ())"
    by (simp add: scripted_env_def bundle_download_def)
  have h2: "s3_download_extract ?env (bucket_name ?first) (object_key ?first) (fst ((), []))
      = (Inr bundle_dir, ())"
    by (simp add: scripted_env_def bundle_download_def)
  have h3: "deploy_all ?env bundle_dir
      ((), snd ((), []) @ [Call (DownloadAndExtract (bucket_name ?first) (object_key ?first))])
      = (Inr ?res, ((), ?tr))"
    by code_simp
  have h4: "s3_download_extract ?broken (bucket_name ?first) (object_key ?first) (fst ((), []))
      = (Inr bundle_dir, ())"
    by (simp add: scripted_env_def bundle_download_def)
  have h5: "read_manifest ?broken (path_join bundle_dir ''manifest.json'')
      = Inl (OtherError ''Expecting value'')"
    by code_simp
  have h6: "deploy_all ?broken bundle_dir
      ((), snd ((), []) @ [Call (DownloadAndExtract (bucket_name ?first) (object_key ?first))])
      = (Inl (OtherError ''Expecting value''), ((), [?dl]))"
    by code_simp
  note i1 = lambda_handler_first_record_only[where env = ?env and r = ?other and rs = "[?first]"
      and s = "((), [])" and e = "OtherError ''NoSuchKey''" and ?w1.0 = "()"]
  note i2 = lambda_handler_first_record_only[where env = ?env and r = ?first and rs = "[?other]"
      and s = "((), [])" and dir = bundle_dir and ?w1.0 = "()" and res = ?res
      and ?s2.0 = "((), ?tr)"]
  note i3 = lambda_handler_first_record_only[where env = ?broken and r = ?first and rs = "[]"
      and s = "((), [])" and dir = bundle_dir and ?w1.0 = "()"
      and e = "OtherError ''Expecting value''" and ?s2.0 = "((), [?dl])"]
  note r1 = i1[THEN conjunct2, THEN conjunct2, THEN conjunct1, THEN mp, OF h1]
  note r2 = i2[THEN conjunct2, THEN conjunct2, THEN conjunct2, THEN conjunct1, THEN mp,
      OF conjI[OF h2 h3]]
  note r3 = i3[THEN conjunct2, THEN conjunct2, THEN conjunct2, THEN conjunct2, THEN conjunct1,
      THEN mp, OF conjI[OF h4 h6]]
  note r4 = i3[THEN conjunct2, THEN conjunct2, THEN conjunct2, THEN conjunct2, THEN conjunct2,
      THEN conjunct1, THEN mp, OF conjI[OF h4 h5]]
  from r1 have c1: "lambda_handler ?env \<lparr>Records = Some [?other, ?first]\<rparr> ((), [])
        = (\<lparr>statusCode = 500, body = ErrorBody ''NoSuchKey''\<rparr>,
           ((), [Call (DownloadAndExtract ''other'' ''other.zip''),
                 Log ERROR ProcessingError [''NoSuchKey'']]))"
    by simp
  from r2 have c2: "lambda_handler ?env \<lparr>Records = Some [?first, ?other]\<rparr> ((), [])
        = (\<lparr>statusCode = 200, body = DeploymentCompleted [''net.yaml:111''] [] []\<rparr>, ((), ?tr))"
    by simp
  from r3 have c3: "lambda_handler ?broken \<lparr>Records = Some [?first]\<rparr> ((), [])
        = (\<lparr>statusCode = 500, body = ErrorBody ''Expecting value''\<rparr>,
           ((), [?dl, Log ERROR ProcessingError [''Expecting value'']]))"
    by (simp add: emit_def)
  from r4 have c4: "lambda_handler ?broken \<lparr>Records = Some [?first]\<rparr> ((), [])
        = (\<lparr>statusCode = 500, body = ErrorBody ''Expecting value''\<rparr>,
           ((), [?dl, Log ERROR ProcessingError [''Expecting value'']]))"
    by simp
  from h1 h2 h3 h4 h5 h6 c1 c2 c3 c4 show ?thesis by simp
qed

text \<open>
  C5. Run on a manifest whose first entry names a template file that is not in the
  bundle (for account 111) and whose second entry deploys \<open>net.yaml\<close> to account 222:
  no remote call is made for account 111 and the second entry is deployed, but the
  entry appended to \<open>failed\<close> by line 181 is the bare account id \<open>111\<close>, not
  \<open>missing.yaml:111\<close>.
\<close>

theorem missing_template_failed_entry:
  "deploy_all (scripted_env (Inr missing_manifest) no_stacks) bundle_dir ((), [])
     = (Inr \<lparr>success = [''net.yaml:222''], failed = [''111''], deleted = []\<rparr>,
        ((),
         [Log WARNING TemplateNotFound [''/tmp/bundle/missing.yaml''],
          Call (AssumeRole ''arn:aws:iam::222:role/RvmWorkflowRole'' ''rvm-deployment-222''),
          Call (ListStacks ''222'' [''CREATE_COMPLETE'', ''UPDATE_COMPLETE'']),
          Call (AssumeRole ''arn:aws:iam::222:role/RvmWorkflowRole'' ''rvm-deployment-222''),
          Call (CreateStack ''222'' ''rvm-provisioned-net'' ''Resources: {}''
                  [''CAPABILITY_NAMED_IAM'']),
          Log WARNING FailedDeployments [''111'']]))"
  by code_simp

text \<open>
  C1. For \<open>net.yaml\<close> and account 111 the first loop records the expected stack
  \<open>rvm-provisioned-net-111\<close> for the account, and the deploy phase submits
  \<open>create_stack\<close> under the name \<open>rvm-provisioned-net\<close>, without the account id.
\<close>

theorem deploy_name_lacks_account_id:
  "expected_stack_name ''net.yaml'' ''111'' = ''rvm-provisioned-net-111''
   \<and> (case fst (scan_templates (scripted_env (Inr net_manifest) no_stacks) bundle_dir
                  [EntryObject \<lparr>tc_template_file = Some ''net.yaml'', tc_accounts = Some [''111'']\<rparr>]
                  init_locals ((), [])) of
        Inl e \<Rightarrow> None
      | Inr l \<Rightarrow> l_account_stacks l ''111'') = Some [''rvm-provisioned-net-111'']
   \<and> deploy_all (scripted_env (Inr net_manifest) no_stacks) bundle_dir ((), [])
       = (Inr \<lparr>success = [''net.yaml:111''], failed = [], deleted = []\<rparr>,
          ((),
           [Call (AssumeRole ''arn:aws:iam::111:role/RvmWorkflowRole'' ''rvm-deployment-111''),
            Call (ListStacks ''111'' [''CREATE_COMPLETE'', ''UPDATE_COMPLETE'']),
            Call (AssumeRole ''arn:aws:iam::111:role/RvmWorkflowRole'' ''rvm-deployment-111''),
            Call (CreateStack ''111'' ''rvm-provisioned-net'' ''Resources: {}''
                    [''CAPABILITY_NAMED_IAM''])]))"
  by code_simp

text \<open>
  C3. On a control plane that applies exactly what it is asked, a first run from the
  empty world creates \<open>rvm-provisioned-net\<close> in account 111. The second run, on the
  world the first one left, finds that stack, does not find it among the expected
  names, deletes it, and then fails to update it.
\<close>

theorem second_run_deletes_what_first_created:
  "deploy_all (cloud_env (Inr net_manifest)) bundle_dir ([], [])
     = (Inr \<lparr>success = [''net.yaml:111''], failed = [], deleted = []\<rparr>,
        ([(''111'', [(''rvm-provisioned-net'', ''CREATE_COMPLETE'')])],
         [Call (AssumeRole ''arn:aws:iam::111:role/RvmWorkflowRole'' ''rvm-deployment-111''),
          Call (ListStacks ''111'' [''CREATE_COMPLETE'', ''UPDATE_COMPLETE'']),
          Call (AssumeRole ''arn:aws:iam::111:role/RvmWorkflowRole'' ''rvm-deployment-111''),
          Call (CreateStack ''111'' ''rvm-provisioned-net'' ''Resources: {}''
                  [''CAPABILITY_NAMED_IAM''])]))
   \<and> deploy_all (cloud_env (Inr net_manifest)) bundle_dir
        ([(''111'', [(''rvm-provisioned-net'', ''CREATE_COMPLETE'')])], [])
     = (Inr \<lparr>success = [], failed = [''net.yaml:111''],
              deleted = [''rvm-provisioned-net:111'']\<rparr>,
        ([(''111'', [])],
         [Call (AssumeRole ''arn:aws:iam::111:role/RvmWorkflowRole'' ''rvm-deployment-111''),
          Call (ListStacks ''111'' [''CREATE_COMPLETE'', ''UPDATE_COMPLETE'']),
          Call (DeleteStack ''111'' ''rvm-provisioned-net''),
          Call (WaitStackDeleteComplete ''111'' ''rvm-provisioned-net''),
          Call (AssumeRole ''arn:aws:iam::111:role/RvmWorkflowRole'' ''rvm-deployment-111''),
          Call (UpdateStack ''111'' ''rvm-provisioned-net'' ''Resources: {}''
                  [''CAPABILITY_NAMED_IAM'']),
          Log ERROR DeployFailed [''net.yaml'', ''111'', ''ValidationError''],
          Log WARNING FailedDeployments [''net.yaml:111'']]))"
  by code_simp


text \<open>
  C4. The same second run, seen as the plan of account 111. The account's expected
  set is \<open>{rvm-provisioned-net-111}\<close> and the listing observes
  \<open>{rvm-provisioned-net}\<close>. The run submits a deletion of \<open>rvm-provisioned-net\<close> and an
  update of \<open>rvm-provisioned-net\<close>: one stack is both deleted and updated, and the
  expected stack is in none of the three sets, so the sets of the plan the run
  carries out neither are disjoint nor cover the union of expected and observed.
\<close>

theorem second_run_plan_is_no_partition:
  "(let world = [(''111'', [(''rvm-provisioned-net'', ''CREATE_COMPLETE'')])];
        env = cloud_env (Inr net_manifest);
        expected = expected_for env bundle_dir
                     [EntryObject \<lparr>tc_template_file = Some ''net.yaml'', tc_accounts = Some [''111'']\<rparr>]
                     (world, []) ''111'';
        observed = map fst (fst (get_existing_stacks env (Session ''111'') (world, [])));
        tr = snd (snd (deploy_all env bundle_dir (world, [])));
        toDelete = deletes_of ''111'' tr;
        toUpdate = updates_of ''111'' tr;
        toCreate = creates_of ''111'' tr
    in expected = [''rvm-provisioned-net-111'']
       \<and> observed = [''rvm-provisioned-net'']
       \<and> toDelete = [''rvm-provisioned-net'']
       \<and> toUpdate = [''rvm-provisioned-net'']
       \<and> toCreate = []
       \<and> set toUpdate \<inter> set toDelete \<noteq> {}
       \<and> set toCreate \<union> set toUpdate \<union> set toDelete \<noteq> set expected \<union> set observed)"
  by code_simp

subsection \<open>Order of deletions and deployments\<close>

lemma two_stretches_order:
  assumes "list_all not_deploy e1" and "list_all not_delete e2"
      and "i < length (e1 @ e2)" and "j < length (e1 @ e2)"
      and "is_delete ((e1 @ e2) ! i)" and "is_deploy ((e1 @ e2) ! j)"
  shows "i < j"
proof -
  have "i < length e1"
  proof (rule ccontr)
    assume "\<not> i < length e1"
    then have "(e1 @ e2) ! i = e2 ! (i - length e1)" "i - length e1 < length e2"
      using assms(3) by (auto simp: nth_append)
    then have "(e1 @ e2) ! i \<in> set e2" by simp
    with assms(2) have "not_delete ((e1 @ e2) ! i)" by (simp add: list_all_iff)
    with assms(5) show False by (simp add: not_delete_def)
  qed
  moreover have "\<not> j < length e1"
  proof
    assume "j < length e1"
    then have "(e1 @ e2) ! j \<in> set e1" by (simp add: nth_append)
    with assms(1) have "not_deploy ((e1 @ e2) ! j)" by (simp add: list_all_iff)
    with assms(6) show False by (simp add: not_deploy_def)
  qed
  ultimately show ?thesis by simp
qed

lemma deploy_all_order:
  assumes "deploy_all env d (w, []) = (r, (w', tr))"
      and "i < length tr" and "j < length tr"
      and "is_delete (tr ! i)" and "is_deploy (tr ! j)"
  shows "i < j"
proof -
  from deploy_all_phases[OF assms(1)] obtain s2 where
    g: "grows not_deploy (w, []) s2" "grows not_delete s2 (w', tr)" by blast
  from g(1) obtain e1 where e1: "snd s2 = e1" "list_all not_deploy e1" by (auto simp: grows_def)
  from g(2) e1(1) obtain e2 where e2: "tr = e1 @ e2" "list_all not_delete e2"
    by (auto simp: grows_def)
  show ?thesis
    using two_stretches_order[OF e1(2) e2(2)] assms(2-5) e2(1) by blast
qed

lemma deleted_names_append: "deleted_names (xs @ ys) = deleted_names xs @ deleted_names ys"
  by (simp add: deleted_names_def List.map_filter_def)

lemma delete_stack_names:
  "\<exists>ext. snd (snd (delete_stack env session n a s)) = snd s @ ext \<and> deleted_names ext = [n]"
  by (auto simp: delete_stack_def remote_def emit_def deleted_names_def List.map_filter_def
           split: prod.splits option.splits)

lemma delete_orphans_names:
  "\<exists>ext. snd (snd (delete_orphans env session a ns res s)) = snd s @ ext \<and> deleted_names ext = ns"
proof (induction ns arbitrary: res s)
  case Nil
  then show ?case by (simp add: deleted_names_def List.map_filter_def)
next
  case (Cons n ns)
  obtain ok s1 where e: "delete_stack env session n a s = (ok, s1)"
    by (cases "delete_stack env session n a s")
  from delete_stack_names[of env session n a s] e obtain ext1 where
    x1: "snd s1 = snd s @ ext1" "deleted_names ext1 = [n]" by auto
  obtain res1 where r: "delete_orphans env session a (n # ns) res s
      = delete_orphans env session a ns res1 s1"
    using e by (cases ok) auto
  from Cons.IH[of res1 s1] obtain ext2 where
    x2: "snd (snd (delete_orphans env session a ns res1 s1)) = snd s1 @ ext2"
        "deleted_names ext2 = ns" by blast
  have "snd (snd (delete_orphans env session a (n # ns) res s)) = snd s @ (ext1 @ ext2)"
    using r x1(1) x2(1) by simp
  moreover have "deleted_names (ext1 @ ext2) = n # ns"
    using x1(2) x2(2) by (simp add: deleted_names_append)
  ultimately show ?case by blast
qed

lemma delete_orphans_submits_all:
  "deleted_names (appended s (snd (delete_orphans env session a ns res s))) = ns"
  using delete_orphans_names[of env session a ns res s] by (auto simp: appended_def)

lemma delete_stack_True_iff:
  "fst (delete_stack env session n a s) \<longleftrightarrow>
     (\<exists>w1 w2. cfn_delete_stack env (session_account session) n (fst s) = (None, w1)
            \<and> cfn_wait_stack_delete_complete env (session_account session) n w1 = (None, w2))"
  by (auto simp: delete_stack_def remote_def split: prod.splits option.splits)

lemma delete_stack_appended_True:
  "fst (delete_stack env session n a s) \<Longrightarrow>
     appended s (snd (delete_stack env session n a s))
       = [Call (DeleteStack (session_account session) n),
          Call (WaitStackDeleteComplete (session_account session) n)]"
  by (auto simp: delete_stack_def remote_def appended_def split: prod.splits option.splits)

lemma delete_stack_waits:
  "cfn_delete_stack env (session_account session) n (fst s) = (None, w1) \<Longrightarrow>
     take 2 (appended s (snd (delete_stack env session n a s)))
       = [Call (DeleteStack (session_account session) n),
          Call (WaitStackDeleteComplete (session_account session) n)]"
  by (auto simp: delete_stack_def remote_def appended_def emit_def split: prod.splits option.splits)

text \<open>
  C6. In the trace of a run of \<open>deploy_all\<close>, every \<open>delete_stack\<close> submission and
  every wait for a deletion in an account comes before every \<open>create_stack\<close> and
  \<open>update_stack\<close> submission in that account. \<open>_delete_stack\<close> waits: an accepted
  submission is followed at once by the wait for its completion, and the function
  reports success exactly when both the submission and the wait returned without an
  exception, having made those two calls and no other. The loop over the orphans
  submits a deletion for each of them, in order, whatever the earlier ones did.
  \<open>_deploy_stack\<close> makes a single call, the submission, and returns.
\<close>

theorem deletions_settle_before_deploys:
  "(deploy_all env d (w, []) = (r, (w', tr)) \<and> i < length tr \<and> j < length tr
      \<and> is_delete_of acct (tr ! i) \<and> is_deploy_of acct (tr ! j) \<longrightarrow> i < j)
   \<and> (cfn_delete_stack env (session_account session) n (fst s) = (None, w1) \<longrightarrow>
        take 2 (appended s (snd (delete_stack env session n a s)))
          = [Call (DeleteStack (session_account session) n),
             Call (WaitStackDeleteComplete (session_account session) n)])
   \<and> (fst (delete_stack env session n a s) \<longleftrightarrow>
        (\<exists>w1 w2. cfn_delete_stack env (session_account session) n (fst s) = (None, w1)
               \<and> cfn_wait_stack_delete_complete env (session_account session) n w1 = (None, w2)))
   \<and> (fst (delete_stack env session n a s) \<longrightarrow>
        appended s (snd (delete_stack env session n a s))
          = [Call (DeleteStack (session_account session) n),
             Call (WaitStackDeleteComplete (session_account session) n)])
   \<and> deleted_names (appended s (snd (delete_orphans env session a orphans res s))) = orphans
   \<and> appended s (snd (deploy_stack env session tc n a ex s))
       = [Call (if n \<in> set (map fst ex)
                then UpdateStack (session_account session) n tc CAPABILITIES
                else CreateStack (session_account session) n tc CAPABILITIES)]"
proof (intro conjI impI)
  assume h: "deploy_all env d (w, []) = (r, (w', tr)) \<and> i < length tr \<and> j < length tr
      \<and> is_delete_of acct (tr ! i) \<and> is_deploy_of acct (tr ! j)"
  then show "i < j"
    using deploy_all_order[of env d w r w' tr i j]
    by (simp add: is_delete_of_def is_deploy_of_def)
next
  assume "cfn_delete_stack env (session_account session) n (fst s) = (None, w1)"
  then show "take 2 (appended s (snd (delete_stack env session n a s)))
          = [Call (DeleteStack (session_account session) n),
             Call (WaitStackDeleteComplete (session_account session) n)]"
    by (rule delete_stack_waits)
next
  show "fst (delete_stack env session n a s) \<longleftrightarrow>
        (\<exists>w1 w2. cfn_delete_stack env (session_account session) n (fst s) = (None, w1)
               \<and> cfn_wait_stack_delete_complete env (session_account session) n w1 = (None, w2))"
    by (rule delete_stack_True_iff)
next
  assume "fst (delete_stack env session n a s)"
  then show "appended s (snd (delete_stack env session n a s))
          = [Call (DeleteStack (session_account session) n),
             Call (WaitStackDeleteComplete (session_account session) n)]"
    by (rule delete_stack_appended_True)
next
  show "deleted_names (appended s (snd (delete_orphans env session a orphans res s))) = orphans"
    by (rule delete_orphans_submits_all)
next
  show "appended s (snd (deploy_stack env session tc n a ex s))
       = [Call (if n \<in> set (map fst ex)
                then UpdateStack (session_account session) n tc CAPABILITIES
                else CreateStack (session_account session) n tc CAPABILITIES)]"
    by (rule deploy_stack_appended)
qed

theorem deletions_settle_before_deploys_witness:
  "deploy_all (scripted_env (Inr net_manifest) one_orphan) bundle_dir ((), [])
     = (Inr \<lparr>success = [''net.yaml:111''], failed = [],
              deleted = [''rvm-provisioned-old-111:111'']\<rparr>,
        ((),
         [Call (AssumeRole ''arn:aws:iam::111:role/RvmWorkflowRole'' ''rvm-deployment-111''),
          Call (ListStacks ''111'' [''CREATE_COMPLETE'', ''UPDATE_COMPLETE'']),
          Call (DeleteStack ''111'' ''rvm-provisioned-old-111''),
          Call (WaitStackDeleteComplete ''111'' ''rvm-provisioned-old-111''),
          Call (AssumeRole ''arn:aws:iam::111:role/RvmWorkflowRole'' ''rvm-deployment-111''),
          Call (CreateStack ''111'' ''rvm-provisioned-net'' ''Resources: {}''
                  [''CAPABILITY_NAMED_IAM''])]))
   \<and> is_delete_of ''111'' (Call (WaitStackDeleteComplete ''111'' ''rvm-provisioned-old-111''))
   \<and> is_deploy_of ''111'' (Call (CreateStack ''111'' ''rvm-provisioned-net'' ''Resources: {}''
                                    [''CAPABILITY_NAMED_IAM'']))
   \<and> (3::nat) < 5
   \<and> cfn_delete_stack (scripted_env (Inr net_manifest) one_orphan) ''111''
        ''rvm-provisioned-old-111'' () = (None, ())
   \<and> fst (delete_stack (scripted_env (Inr net_manifest) one_orphan) (Session ''111'')
            ''rvm-provisioned-old-111'' ''111'' ((), []))
   \<and> appended ((), [])
        (snd (delete_stack (scripted_env (Inr net_manifest) one_orphan) (Session ''111'')
                ''rvm-provisioned-old-111'' ''111'' ((), [])))
       = [Call (DeleteStack ''111'' ''rvm-provisioned-old-111''),
          Call (WaitStackDeleteComplete ''111'' ''rvm-provisioned-old-111'')]"
proof -
  let ?env = "scripted_env (Inr net_manifest) one_orphan"
  let ?tr = "[Call (AssumeRole ''arn:aws:iam::111:role/RvmWorkflowRole'' ''rvm-deployment-111''),
          Call (ListStacks ''111'' [''CREATE_COMPLETE'', ''UPDATE_COMPLETE'']),
          Call (DeleteStack ''111'' ''rvm-provisioned-old-111''),
          Call (WaitStackDeleteComplete ''111'' ''rvm-provisioned-old-111''),
          Call (AssumeRole ''arn:aws:iam::111:role/RvmWorkflowRole'' ''rvm-deployment-111''),
          Call (CreateStack ''111'' ''rvm-provisioned-net'' ''Resources: {}''
                  [''CAPABILITY_NAMED_IAM''])]"
  have run: "deploy_all ?env bundle_dir ((), [])
     = (Inr \<lparr>success = [''net.yaml:111''], failed = [],
              deleted = [''rvm-provisioned-old-111:111'']\<rparr>, ((), ?tr))"
    by code_simp
  have d: "is_delete_of ''111'' (?tr ! 3)" by (simp add: is_delete_of_def)
  have c: "is_deploy_of ''111'' (?tr ! 5)" by (simp add: is_deploy_of_def)
  have sub: "cfn_delete_stack ?env (session_account (Session ''111''))
        ''rvm-provisioned-old-111'' (fst ((), [])) = (None, ())"
    by (simp add: scripted_env_def)
  have ok: "fst (delete_stack ?env (Session ''111'') ''rvm-provisioned-old-111'' ''111'' ((), []))"
    by (simp add: delete_stack_def remote_def scripted_env_def)
  note inst = deletions_settle_before_deploys[of ?env bundle_dir "()"
      "Inr \<lparr>success = [''net.yaml:111''], failed = [], deleted = [''rvm-provisioned-old-111:111'']\<rparr>"
      "()" ?tr 3 5 "''111''" "Session ''111''" "''rvm-provisioned-old-111''" "((), [])" "()"
      "''111''" "[]" empty_results "''Resources: {}''" "[]"]
  show ?thesis
    using run d c sub ok inst by simp
qed

subsection \<open>A listing that fails\<close>

lemma grows_extends: "grows P s s' \<Longrightarrow> extends s s'"
  by (auto simp: grows_def extends_def)

lemma extends_refl: "extends s s"
  by (simp add: extends_def)

lemma extends_trans: "extends s s1 \<Longrightarrow> extends s1 s2 \<Longrightarrow> extends s s2"
  by (auto simp: extends_def)

lemma adds_extends: "adds x s s' \<Longrightarrow> extends s s'"
  by (auto simp: adds_def extends_def)

lemma adds_before: "adds x s s1 \<Longrightarrow> extends s1 s2 \<Longrightarrow> adds x s s2"
  by (auto simp: adds_def extends_def)

lemma adds_after: "extends s s1 \<Longrightarrow> adds x s1 s2 \<Longrightarrow> adds x s s2"
  by (auto simp: adds_def extends_def)

lemma adds_appended: "adds x s s' \<Longrightarrow> x \<in> set (appended s s')"
  by (auto simp: adds_def appended_def)

lemma extends_emit: "extends s (emit x s)"
  by (simp add: extends_def emit_def)

lemma adds_emit: "adds x s (emit x s)"
  by (simp add: adds_def emit_def)

lemma extends_assume_role: "assume_role env a r s = (x, s') \<Longrightarrow> extends s s'"
  by (rule grows_extends[where P = "\<lambda>e. True"], erule grows_assume_role) simp

lemma extends_delete_stack: "delete_stack env session n a s = (x, s') \<Longrightarrow> extends s s'"
  by (rule grows_extends[where P = "\<lambda>e. True"], erule grows_delete_stack) simp_all

lemma extends_delete_orphans: "delete_orphans env session a ns res s = (x, s') \<Longrightarrow> extends s s'"
  by (rule grows_extends[where P = "\<lambda>e. True"], erule grows_delete_orphans) simp_all

lemma extends_scan_templates: "scan_templates env d es l s = (x, s') \<Longrightarrow> extends s s'"
  by (rule grows_extends[where P = "\<lambda>e. True"], erule grows_scan_templates) simp

lemma extends_check_account: "check_account env acs a ra s = (x, s') \<Longrightarrow> extends s s'"
  by (rule grows_extends[where P = "\<lambda>e. True"], erule grows_check_account) simp_all

lemma extends_deploy_pair: "deploy_pair env tf tc sn aes a res s = (x, s') \<Longrightarrow> extends s s'"
  by (rule grows_extends[where P = "\<lambda>e. True"], erule grows_deploy_pair) simp_all

lemma extends_deploy_accounts:
  "deploy_accounts env tf tc sn aes as res s = (x, s') \<Longrightarrow> extends s s'"
  by (rule grows_extends[where P = "\<lambda>e. True"], erule grows_deploy_accounts) simp_all

lemma extends_deploy_entry: "deploy_entry env d aes x res s = (r, s') \<Longrightarrow> extends s s'"
  by (rule grows_extends[where P = "\<lambda>e. True"], erule grows_deploy_entry) simp_all

lemma extends_deploy_templates: "deploy_templates env d aes es res s = (r, s') \<Longrightarrow> extends s s'"
  by (rule grows_extends[where P = "\<lambda>e. True"], erule grows_deploy_templates) simp_all

lemma set_set_iter: "set (set_iter env xs) = set xs"
  by (simp add: set_iter_def)

text \<open>The first loop: which accounts it collects and which names it records.\<close>

lemma set_set_update: "set (set_update xs ys) = set xs \<union> set ys"
  unfolding set_update_def
  by (induction ys arbitrary: xs) (auto simp: set_add_def)

lemma fold_track_all_accounts:
  "l_all_accounts (fold (track_account sn) accts l) = l_all_accounts l"
  by (induction accts arbitrary: l) (simp_all add: track_account_def)

lemma scan_entry_keeps:
  assumes "scan_entry env d x l s = (Inr l', s')"
  shows "set (l_all_accounts l) \<subseteq> set (l_all_accounts l')"
  using assms
  by (cases rule: scan_entry_cases) (auto simp: fold_track_all_accounts set_set_update)

lemma scan_templates_collects:
  assumes "scan_templates env d es l s = (Inr l', s')"
  shows "set (l_all_accounts l) \<subseteq> set (l_all_accounts l')
       \<and> (EntryObject tc \<in> set es \<longrightarrow> tc_template_file tc = Some tf \<longrightarrow> tf \<noteq> [] \<longrightarrow>
            tc_accounts tc = Some accts \<longrightarrow> a \<in> set accts \<longrightarrow>
            read_template_file env (path_join d tf) = Inr content \<longrightarrow>
            a \<in> set (l_all_accounts l'))"
  using assms
proof (induction es arbitrary: l s)
  case Nil
  then show ?case by simp
next
  case (Cons x es)
  obtain y s1 where e: "scan_entry env d x l s = (y, s1)"
    by (cases "scan_entry env d x l s")
  with Cons.prems(1) obtain l1 where l1: "y = Inr l1"
    and rest: "scan_templates env d es l1 s1 = (Inr l', s')"
    by (cases y) auto
  from scan_entry_keeps[OF e[unfolded l1]]
  have k1: "set (l_all_accounts l) \<subseteq> set (l_all_accounts l1)" .
  from Cons.IH[OF rest]
  have ih: "set (l_all_accounts l1) \<subseteq> set (l_all_accounts l')"
    "EntryObject tc \<in> set es \<longrightarrow> tc_template_file tc = Some tf \<longrightarrow> tf \<noteq> [] \<longrightarrow>
            tc_accounts tc = Some accts \<longrightarrow> a \<in> set accts \<longrightarrow>
            read_template_file env (path_join d tf) = Inr content \<longrightarrow>
            a \<in> set (l_all_accounts l')"
    by simp_all
  have here: "a \<in> set (l_all_accounts l')"
    if "x = EntryObject tc" "tc_template_file tc = Some tf" "tf \<noteq> []"
       "tc_accounts tc = Some accts" "a \<in> set accts"
       "read_template_file env (path_join d tf) = Inr content"
  proof -
    from e[unfolded l1] have "a \<in> set (l_all_accounts l1)"
    proof (cases rule: scan_entry_cases)
      case (tracked tc' tf' accts' content')
      with that have "tc' = tc" "tf' = tf" "accts' = accts" by simp_all
      with tracked(7) that(5) show ?thesis
        by (simp add: fold_track_all_accounts set_set_update)
    qed (use that in auto)
    with ih(1) show ?thesis by blast
  qed
  from k1 ih here show ?case by auto
qed

text \<open>The second loop, for an account whose role can be assumed and whose listing fails.\<close>

lemma assume_role_succeeds:
  assumes "\<forall>w. fst (sts_assume_role env (''arn:aws:iam::'' @ a @ '':role/'' @ ROLE_NAME)
                       (''rvm-deployment-'' @ a) w) = None"
  obtains s1 where "assume_role env a ROLE_NAME s = (Inr (Session a), s1)" "extends s s1"
proof -
  obtain r w1 where c: "sts_assume_role env (''arn:aws:iam::'' @ a @ '':role/'' @ ROLE_NAME)
      (''rvm-deployment-'' @ a) (fst s) = (r, w1)"
    by (cases "sts_assume_role env (''arn:aws:iam::'' @ a @ '':role/'' @ ROLE_NAME)
      (''rvm-deployment-'' @ a) (fst s)")
  with assms have "r = None" by (metis fst_conv)
  with c have ar: "assume_role env a ROLE_NAME s
      = (Inr (Session a), (w1, snd s @ [Call (AssumeRole (''arn:aws:iam::'' @ a @ '':role/'' @ ROLE_NAME)
                                              (''rvm-deployment-'' @ a))]))"
    by (simp add: assume_role_def remote_def Let_def)
  show ?thesis by (rule that[OF ar]) (simp add: extends_def)
qed

lemma listing_fails:
  assumes "\<forall>w. fst (cfn_list_stacks env a STATUS_FILTER w) = (pages, Some e)"
  obtains s2 where "get_existing_stacks env (Session a) s1 = (collect_pages pages, s2)"
    "adds (Log WARNING ListFailed [exn_str e]) s1 s2"
proof -
  obtain r w2 where c: "cfn_list_stacks env a STATUS_FILTER (fst s1) = (r, w2)"
    by (cases "cfn_list_stacks env a STATUS_FILTER (fst s1)")
  with assms have "r = (pages, Some e)" by (metis fst_conv)
  with c have ge: "get_existing_stacks env (Session a) s1
      = (collect_pages pages,
         (w2, snd s1 @ [Call (ListStacks a STATUS_FILTER), Log WARNING ListFailed [exn_str e]]))"
    by (simp add: get_existing_stacks_def remote_def emit_def)
  show ?thesis by (rule that[OF ge]) (simp add: adds_def)
qed

lemma delete_stack_adds:
  "delete_stack env session n a s = (x, s') \<Longrightarrow>
     adds (Call (DeleteStack (session_account session) n)) s s'"
  by (auto simp: delete_stack_def remote_def emit_def adds_def split: prod.splits option.splits)

lemma delete_orphans_adds:
  assumes "delete_orphans env session a ns res s = (x, s')" and "n \<in> set ns"
  shows "adds (Call (DeleteStack (session_account session) n)) s s'"
  using assms
proof (induction ns arbitrary: res s)
  case Nil
  then show ?case by simp
next
  case (Cons m ns)
  obtain ok s1 where e: "delete_stack env session m a s = (ok, s1)"
    by (cases "delete_stack env session m a s")
  obtain res1 where r: "delete_orphans env session a ns res1 s1 = (x, s')"
    using e Cons.prems(1) by (cases ok) auto
  show ?case
  proof (cases "n = m")
    case True
    from delete_stack_adds[OF e] True extends_delete_orphans[OF r] show ?thesis
      by (blast intro: adds_before)
  next
    case False
    with Cons.prems(2) have "n \<in> set ns" by simp
    from Cons.IH[OF r this] extends_delete_stack[OF e] show ?thesis
      by (blast intro: adds_after)
  qed
qed

lemma check_account_other:
  assumes "check_account env acs b (res, aes) s = ((res', aes'), s')" and "c \<noteq> b"
  shows "aes' c = aes c"
  using assms
  by (auto simp: check_account_def Let_def split: prod.splits sum.splits)

lemma check_account_listing_failed:
  assumes role: "\<forall>w. fst (sts_assume_role env (''arn:aws:iam::'' @ a @ '':role/'' @ ROLE_NAME)
                       (''rvm-deployment-'' @ a) w) = None"
      and list: "\<forall>w. fst (cfn_list_stacks env a STATUS_FILTER w) = (pages, Some e)"
      and run: "check_account env acs a (res, aes) s = ((res', aes'), s')"
  shows "aes' a = Some (collect_pages pages)"
    and "adds (Log WARNING ListFailed [exn_str e]) s s'"
    and "n \<in> set (orphaned_stacks (collect_pages pages)
                    (case acs a of None \<Rightarrow> [] | Some names \<Rightarrow> names))
         \<Longrightarrow> adds (Call (DeleteStack a n)) s s'"
proof -
  let ?orph = "orphaned_stacks (collect_pages pages) (case acs a of None \<Rightarrow> [] | Some names \<Rightarrow> names)"
  from assume_role_succeeds[OF role] obtain s1 where
    ar: "assume_role env a ROLE_NAME s = (Inr (Session a), s1)" and x1: "extends s s1" by blast
  from listing_fails[OF list] obtain s2 where
    ge: "get_existing_stacks env (Session a) s1 = (collect_pages pages, s2)"
    and x2: "adds (Log WARNING ListFailed [exn_str e]) s1 s2" by blast
  obtain res3 s3 where dl:
    "delete_orphans env (Session a) a (set_iter env ?orph) res s2 = (res3, s3)"
    by (cases "delete_orphans env (Session a) a (set_iter env ?orph) res s2")
  from ar ge dl run have eq: "aes' = aes(a \<mapsto> collect_pages pages)" "s' = s3"
    by (simp_all add: check_account_def Let_def)
  show "aes' a = Some (collect_pages pages)" using eq(1) by simp
  have x3: "extends s2 s3" by (rule extends_delete_orphans[OF dl])
  from x1 x2 x3 show "adds (Log WARNING ListFailed [exn_str e]) s s'"
    unfolding eq(2) by (blast intro: adds_before adds_after)
  show "adds (Call (DeleteStack a n)) s s'" if "n \<in> set ?orph"
  proof -
    from that have "n \<in> set (set_iter env ?orph)" by (simp add: set_set_iter)
    from delete_orphans_adds[OF dl this] have "adds (Call (DeleteStack a n)) s2 s3" by simp
    with x1 adds_extends[OF x2] show ?thesis
      unfolding eq(2) by (blast intro: adds_after extends_trans)
  qed
qed

lemma check_accounts_listing_failed:
  assumes role: "\<forall>w. fst (sts_assume_role env (''arn:aws:iam::'' @ a @ '':role/'' @ ROLE_NAME)
                       (''rvm-deployment-'' @ a) w) = None"
      and list: "\<forall>w. fst (cfn_list_stacks env a STATUS_FILTER w) = (pages, Some e)"
      and run: "check_accounts env acs as (res, aes) s = ((res', aes'), s')"
  shows "extends s s'
       \<and> (a \<in> set as \<or> aes a = Some (collect_pages pages) \<longrightarrow> aes' a = Some (collect_pages pages))
       \<and> (a \<in> set as \<longrightarrow>
            adds (Log WARNING ListFailed [exn_str e]) s s'
            \<and> (\<forall>n \<in> set (orphaned_stacks (collect_pages pages)
                             (case acs a of None \<Rightarrow> [] | Some names \<Rightarrow> names)).
                  adds (Call (DeleteStack a n)) s s'))"
  using run
proof (induction as arbitrary: res aes s)
  case Nil
  then show ?case by (simp add: extends_refl)
next
  case (Cons b as)
  obtain res1 aes1 s1 where e: "check_account env acs b (res, aes) s = ((res1, aes1), s1)"
    by (cases "check_account env acs b (res, aes) s") auto
  with Cons.prems have rest: "check_accounts env acs as (res1, aes1) s1 = ((res', aes'), s')"
    by simp
  note ih = Cons.IH[OF rest]
  have x1: "extends s s1" by (rule extends_check_account[OF e])
  from ih have x2: "extends s1 s'" by simp
  have keep: "aes1 a = Some (collect_pages pages)"
    if "b = a \<or> aes a = Some (collect_pages pages)"
  proof (cases "b = a")
    case True
    with e check_account_listing_failed(1)[OF role list] show ?thesis by blast
  next
    case False
    with that check_account_other[OF e, of a] show ?thesis by simp
  qed
  have here: "adds (Log WARNING ListFailed [exn_str e]) s s'
      \<and> (\<forall>n \<in> set (orphaned_stacks (collect_pages pages)
                       (case acs a of None \<Rightarrow> [] | Some names \<Rightarrow> names)).
            adds (Call (DeleteStack a n)) s s')" if "b = a"
  proof -
    from e that have ea: "check_account env acs a (res, aes) s = ((res1, aes1), s1)" by simp
    from check_account_listing_failed(2)[OF role list ea] x2
    have "adds (Log WARNING ListFailed [exn_str e]) s s'" by (rule adds_before)
    moreover have "adds (Call (DeleteStack a n)) s s'"
      if "n \<in> set (orphaned_stacks (collect_pages pages)
                       (case acs a of None \<Rightarrow> [] | Some names \<Rightarrow> names))" for n
      using check_account_listing_failed(3)[OF role list ea that] x2 by (rule adds_before)
    ultimately show ?thesis by blast
  qed
  have later: "adds (Log WARNING ListFailed [exn_str e]) s s'
      \<and> (\<forall>n \<in> set (orphaned_stacks (collect_pages pages)
                       (case acs a of None \<Rightarrow> [] | Some names \<Rightarrow> names)).
            adds (Call (DeleteStack a n)) s s')" if "a \<in> set as"
    using ih that x1 by (blast intro: adds_after)
  from x1 x2 have "extends s s'" by (rule extends_trans)
  moreover have "aes' a = Some (collect_pages pages)"
    if "a \<in> set (b # as) \<or> aes a = Some (collect_pages pages)"
  proof (cases "a \<in> set as")
    case True
    with ih show ?thesis by blast
  next
    case False
    with that have "b = a \<or> aes a = Some (collect_pages pages)" by auto
    from keep[OF this] ih show ?thesis by blast
  qed
  moreover have "adds (Log WARNING ListFailed [exn_str e]) s s'
      \<and> (\<forall>n \<in> set (orphaned_stacks (collect_pages pages)
                       (case acs a of None \<Rightarrow> [] | Some names \<Rightarrow> names)).
            adds (Call (DeleteStack a n)) s s')" if "a \<in> set (b # as)"
    using that here later by (cases "b = a") auto
  ultimately show ?case by blast
qed

text \<open>The third loop, for an account whose role can be assumed.\<close>

lemma deploy_pair_adds:
  assumes role: "\<forall>w. fst (sts_assume_role env (''arn:aws:iam::'' @ a @ '':role/'' @ ROLE_NAME)
                       (''rvm-deployment-'' @ a) w) = None"
      and obs: "aes a = Some existing"
      and run: "deploy_pair env tf content sn aes a res s = (res', s')"
  shows "adds (Call (if sn \<in> set (map fst existing)
                     then UpdateStack a sn content CAPABILITIES
                     else CreateStack a sn content CAPABILITIES)) s s'"
proof -
  let ?c = "Call (if sn \<in> set (map fst existing)
                  then UpdateStack a sn content CAPABILITIES
                  else CreateStack a sn content CAPABILITIES)"
  from assume_role_succeeds[OF role] obtain s1 where
    ar: "assume_role env a ROLE_NAME s = (Inr (Session a), s1)" and x1: "extends s s1" by blast
  obtain r2 s2 where ds: "deploy_stack env (Session a) content sn a existing s1 = (r2, s2)"
    by (cases "deploy_stack env (Session a) content sn a existing s1")
  from deploy_stack_appended[of s1 env "Session a" content sn a existing] ds
  have ap: "appended s1 s2 = [?c]" by simp
  from grows_deploy_stack[OF ds, of "\<lambda>e. True"] obtain ext where
    ext: "snd s2 = snd s1 @ ext" by (auto simp: grows_def)
  with ap have "ext = [?c]" by (simp add: appended_def)
  with ext have a2: "adds ?c s1 s2" by (simp add: adds_def)
  have "s' = s2 \<or> (\<exists>x. s' = emit x s2)"
    using run ar obs ds by (auto simp: deploy_pair_def Let_def split: sum.splits bool.splits)
  then have x3: "extends s2 s'" by (auto simp: extends_refl extends_emit)
  from x1 a2 x3 show ?thesis by (blast intro: adds_before adds_after)
qed

lemma deploy_accounts_adds:
  assumes role: "\<forall>w. fst (sts_assume_role env (''arn:aws:iam::'' @ a @ '':role/'' @ ROLE_NAME)
                       (''rvm-deployment-'' @ a) w) = None"
      and obs: "aes a = Some existing"
      and run: "deploy_accounts env tf content sn aes accts res s = (res', s')"
      and mem: "a \<in> set accts"
  shows "adds (Call (if sn \<in> set (map fst existing)
                     then UpdateStack a sn content CAPABILITIES
                     else CreateStack a sn content CAPABILITIES)) s s'"
  using run mem
proof (induction accts arbitrary: res s)
  case Nil
  then show ?case by simp
next
  case (Cons b accts)
  obtain res1 s1 where e: "deploy_pair env tf content sn aes b res s = (res1, s1)"
    by (cases "deploy_pair env tf content sn aes b res s")
  with Cons.prems(1) have rest: "deploy_accounts env tf content sn aes accts res1 s1 = (res', s')"
    by simp
  show ?case
  proof (cases "b = a")
    case True
    with e have "deploy_pair env tf content sn aes a res s = (res1, s1)" by simp
    from deploy_pair_adds[OF role obs this] extends_deploy_accounts[OF rest]
    show ?thesis by (rule adds_before)
  next
    case False
    with Cons.prems(2) have "a \<in> set accts" by simp
    from extends_deploy_pair[OF e] Cons.IH[OF rest this] show ?thesis by (rule adds_after)
  qed
qed

lemma deploy_templates_adds:
  assumes role: "\<forall>w. fst (sts_assume_role env (''arn:aws:iam::'' @ a @ '':role/'' @ ROLE_NAME)
                       (''rvm-deployment-'' @ a) w) = None"
      and obs: "aes a = Some existing"
      and run: "deploy_templates env d aes es res s = (Inr res', s')"
      and ent: "EntryObject tc \<in> set es" "tc_template_file tc = Some tf" "tf \<noteq> []"
               "tc_accounts tc = Some accts" "a \<in> set accts"
      and readable: "read_template_file env (path_join d tf) = Inr content"
  shows "adds (Call (if generate_stack_name tf \<in> set (map fst existing)
                     then UpdateStack a (generate_stack_name tf) content CAPABILITIES
                     else CreateStack a (generate_stack_name tf) content CAPABILITIES)) s s'"
  using run ent(1)
proof (induction es arbitrary: res s)
  case Nil
  then show ?case by simp
next
  case (Cons x es)
  obtain y s1 where e: "deploy_entry env d aes x res s = (y, s1)"
    by (cases "deploy_entry env d aes x res s")
  with Cons.prems(1) obtain res1 where y: "y = Inr res1"
    and rest: "deploy_templates env d aes es res1 s1 = (Inr res', s')"
    by (cases y) auto
  show ?case
  proof (cases "x = EntryObject tc")
    case True
    from e have "adds (Call (if generate_stack_name tf \<in> set (map fst existing)
                     then UpdateStack a (generate_stack_name tf) content CAPABILITIES
                     else CreateStack a (generate_stack_name tf) content CAPABILITIES)) s s1"
    proof (cases rule: deploy_entry_cases)
      case (deployed tc' tf' accts' content' res2)
      with True ent readable have same: "tf' = tf" "accts' = accts" "content' = content" by simp_all
      from deployed(7)[unfolded same] have
        "deploy_accounts env tf content (generate_stack_name tf) aes accts res s = (res2, s1)" .
      from deploy_accounts_adds[OF role obs this ent(5)] show ?thesis .
    qed (use True ent readable in auto)
    with extends_deploy_templates[OF rest] show ?thesis by (blast intro: adds_before)
  next
    case False
    with Cons.prems(2) have "EntryObject tc \<in> set es" by simp
    from extends_deploy_entry[OF e] Cons.IH[OF rest this] show ?thesis by (rule adds_after)
  qed
qed

lemma entries_has_templates: "templates_entries m = Inr es \<Longrightarrow> has_templates m = Inr True"
  by (cases m rule: get_templates.cases) (simp_all add: templates_entries_def)

text \<open>
  C2, as amended. Take a run of \<open>deploy_all\<close> that completes, an entry of its manifest
  with a readable template file, and an account of that entry whose role can be
  assumed and whose listing fails after delivering some pages (possibly none).
  \<open>_get_existing_stacks\<close> does not raise: it returns the stacks listed on those pages.
  The failure is logged as a warning and the account is not skipped: the stacks listed on
  the pages delivered before the failure are its observed set, and the run submits a
  deletion in that account for every stack of that set that is not in the account's
  expected set, and submits the stack of the entry in that account, as an update if
  its name is in the observed set and as a creation otherwise.
\<close>

theorem listing_failure_keeps_reconciling:
  assumes run: "deploy_all env d s = (Inr res, s')"
      and man: "read_manifest env (path_join d ''manifest.json'') = Inr m"
               "templates_entries m = Inr es"
      and ent: "EntryObject tc \<in> set es" "tc_template_file tc = Some tf" "tf \<noteq> []"
               "tc_accounts tc = Some accts" "a \<in> set accts"
      and readable: "read_template_file env (path_join d tf) = Inr content"
      and role: "\<forall>w. fst (sts_assume_role env (''arn:aws:iam::'' @ a @ '':role/'' @ ROLE_NAME)
                       (''rvm-deployment-'' @ a) w) = None"
      and list: "\<forall>w. fst (cfn_list_stacks env a STATUS_FILTER w) = (pages, Some e)"
  shows "(\<forall>s0. fst (get_existing_stacks env (Session a) s0) = collect_pages pages)
       \<and> Log WARNING ListFailed [exn_str e] \<in> set (appended s s')
       \<and> (\<forall>n \<in> set (orphaned_stacks (collect_pages pages) (expected_for env d es s a)).
             Call (DeleteStack a n) \<in> set (appended s s'))
       \<and> Call (if generate_stack_name tf \<in> set (map fst (collect_pages pages))
                then UpdateStack a (generate_stack_name tf) content CAPABILITIES
                else CreateStack a (generate_stack_name tf) content CAPABILITIES)
           \<in> set (appended s s')"
  using run
proof (cases rule: deploy_all_cases)
  case (scanned m' es' l s1 res2 aes s2)
  with man have m': "m' = m" and es': "es' = es" by simp_all
  have sc: "scan_templates env d es init_locals s = (Inr l, s1)"
    using scanned(4) es' by simp
  from scan_templates_collects[OF sc, of tc tf accts a content] ent readable
  have vis: "a \<in> set (l_all_accounts l)" by simp
  have exp: "expected_for env d es s a
      = (case l_account_stacks l a of None \<Rightarrow> [] | Some names \<Rightarrow> names)"
    by (simp add: expected_for_def sc)
  have x1: "extends s s1" by (rule extends_scan_templates[OF sc])
  from vis have vis': "a \<in> set (set_iter env (l_all_accounts l))" by (simp add: set_set_iter)
  from check_accounts_listing_failed[OF role list scanned(5)] vis'
  have x2: "extends s1 s2"
    and snap: "aes a = Some (collect_pages pages)"
    and warn: "adds (Log WARNING ListFailed [exn_str e]) s1 s2"
    and dels: "\<forall>n \<in> set (orphaned_stacks (collect_pages pages)
                         (case l_account_stacks l a of None \<Rightarrow> [] | Some names \<Rightarrow> names)).
                 adds (Call (DeleteStack a n)) s1 s2"
    by simp_all
  from scanned(6) m' have dp: "deploy_phase env d m aes res2 s2 = (Inr res, s')" by simp
  from dp obtain res3 s3 where
    dt: "deploy_templates env d aes es res2 s2 = (Inr res3, s3)"
    and fin: "s' = (if failed res3 \<noteq> [] then emit (Log WARNING FailedDeployments (failed res3)) s3 else s3)"
    using man(2) by (cases rule: deploy_phase_cases) auto
  from fin have x4: "extends s3 s'" by (simp add: extends_refl extends_emit)
  have x3: "extends s2 s3" by (rule extends_deploy_templates[OF dt])
  from x3 x4 have x34: "extends s2 s'" by (rule extends_trans)
  from x1 x2 have x12: "extends s s2" by (rule extends_trans)
  have "adds (Log WARNING ListFailed [exn_str e]) s s'"
    using x1 warn x34 by (blast intro: adds_before adds_after)
  then have c1: "Log WARNING ListFailed [exn_str e] \<in> set (appended s s')"
    by (rule adds_appended)
  have c2: "Call (DeleteStack a n) \<in> set (appended s s')"
    if n: "n \<in> set (orphaned_stacks (collect_pages pages) (expected_for env d es s a))" for n
  proof -
    from n dels have "adds (Call (DeleteStack a n)) s1 s2" unfolding exp by blast
    with x1 x34 have "adds (Call (DeleteStack a n)) s s'"
      by (blast intro: adds_before adds_after)
    then show ?thesis by (rule adds_appended)
  qed
  from deploy_templates_adds[OF role snap dt ent readable]
  have "adds (Call (if generate_stack_name tf \<in> set (map fst (collect_pages pages))
                then UpdateStack a (generate_stack_name tf) content CAPABILITIES
                else CreateStack a (generate_stack_name tf) content CAPABILITIES)) s2 s3" .
  with x12 x4 have "adds (Call (if generate_stack_name tf \<in> set (map fst (collect_pages pages))
                then UpdateStack a (generate_stack_name tf) content CAPABILITIES
                else CreateStack a (generate_stack_name tf) content CAPABILITIES)) s s'"
    by (blast intro: adds_before adds_after)
  then have c3: "Call (if generate_stack_name tf \<in> set (map fst (collect_pages pages))
                then UpdateStack a (generate_stack_name tf) content CAPABILITIES
                else CreateStack a (generate_stack_name tf) content CAPABILITIES)
           \<in> set (appended s s')"
    by (rule adds_appended)
  have c0: "fst (get_existing_stacks env (Session a) s0) = collect_pages pages" for s0
    using listing_fails[OF list, of s0] by (metis fst_conv)
  from c0 c1 c2 c3 show ?thesis by blast
qed (use man entries_has_templates[OF man(2)] in auto)

theorem listing_failure_keeps_reconciling_witness:
  "deploy_all (scripted_env (Inr net_manifest) failing_listing) bundle_dir ((), [])
     = (Inr \<lparr>success = [''net.yaml:111''], failed = [],
              deleted = [''rvm-provisioned-old-111:111'']\<rparr>,
        ((),
         [Call (AssumeRole ''arn:aws:iam::111:role/RvmWorkflowRole'' ''rvm-deployment-111''),
          Call (ListStacks ''111'' [''CREATE_COMPLETE'', ''UPDATE_COMPLETE'']),
          Log WARNING ListFailed [''Throttling''],
          Call (DeleteStack ''111'' ''rvm-provisioned-old-111''),
          Call (WaitStackDeleteComplete ''111'' ''rvm-provisioned-old-111''),
          Call (AssumeRole ''arn:aws:iam::111:role/RvmWorkflowRole'' ''rvm-deployment-111''),
          Call (CreateStack ''111'' ''rvm-provisioned-net'' ''Resources: {}''
                  [''CAPABILITY_NAMED_IAM''])]))
   \<and> read_manifest (scripted_env (Inr net_manifest) failing_listing)
        (path_join bundle_dir ''manifest.json'') = Inr net_manifest
   \<and> templates_entries net_manifest
       = Inr [EntryObject \<lparr>tc_template_file = Some ''net.yaml'', tc_accounts = Some [''111'']\<rparr>]
   \<and> read_template_file (scripted_env (Inr net_manifest) failing_listing)
        (path_join bundle_dir ''net.yaml'') = Inr ''Resources: {}''
   \<and> (\<forall>w. fst (sts_assume_role (scripted_env (Inr net_manifest) failing_listing)
                  (''arn:aws:iam::'' @ ''111'' @ '':role/'' @ ROLE_NAME)
                  (''rvm-deployment-'' @ ''111'') w) = None)
   \<and> (\<forall>w. fst (cfn_list_stacks (scripted_env (Inr net_manifest) failing_listing)
                  ''111'' STATUS_FILTER w)
            = ([[(''rvm-provisioned-old-111'', ''CREATE_COMPLETE'')]],
               Some (OtherError ''Throttling'')))
   \<and> orphaned_stacks (collect_pages [[(''rvm-provisioned-old-111'', ''CREATE_COMPLETE'')]])
        (expected_for (scripted_env (Inr net_manifest) failing_listing) bundle_dir
           [EntryObject \<lparr>tc_template_file = Some ''net.yaml'', tc_accounts = Some [''111'']\<rparr>]
           ((), []) ''111'')
       = [''rvm-provisioned-old-111'']
   \<and> generate_stack_name ''net.yaml''
       \<notin> set (map fst (collect_pages [[(''rvm-provisioned-old-111'', ''CREATE_COMPLETE'')]]))
   \<and> Log WARNING ListFailed [exn_str (OtherError ''Throttling'')]
       \<in> set (appended ((), [])
                (snd (deploy_all (scripted_env (Inr net_manifest) failing_listing)
                        bundle_dir ((), []))))
   \<and> Call (DeleteStack ''111'' ''rvm-provisioned-old-111'')
       \<in> set (appended ((), [])
                (snd (deploy_all (scripted_env (Inr net_manifest) failing_listing)
                        bundle_dir ((), []))))
   \<and> Call (CreateStack ''111'' (generate_stack_name ''net.yaml'') ''Resources: {}'' CAPABILITIES)
       \<in> set (appended ((), [])
                (snd (deploy_all (scripted_env (Inr net_manifest) failing_listing)
                        bundle_dir ((), []))))"
proof -
  let ?env = "scripted_env (Inr net_manifest) failing_listing"
  let ?tc = "\<lparr>tc_template_file = Some ''net.yaml'', tc_accounts = Some [''111'']\<rparr>"
  let ?pages = "[[(''rvm-provisioned-old-111'', ''CREATE_COMPLETE'')]]"
  let ?res = "\<lparr>success = [''net.yaml:111''], failed = [],
              deleted = [''rvm-provisioned-old-111:111'']\<rparr>"
  let ?tr = "[Call (AssumeRole ''arn:aws:iam::111:role/RvmWorkflowRole'' ''rvm-deployment-111''),
          Call (ListStacks ''111'' [''CREATE_COMPLETE'', ''UPDATE_COMPLETE'']),
          Log WARNING ListFailed [''Throttling''],
          Call (DeleteStack ''111'' ''rvm-provisioned-old-111''),
          Call (WaitStackDeleteComplete ''111'' ''rvm-provisioned-old-111''),
          Call (AssumeRole ''arn:aws:iam::111:role/RvmWorkflowRole'' ''rvm-deployment-111''),
          Call (CreateStack ''111'' ''rvm-provisioned-net'' ''Resources: {}''
                  [''CAPABILITY_NAMED_IAM''])]"
  have run: "deploy_all ?env bundle_dir ((), []) = (Inr ?res, ((), ?tr))"
    by code_simp
  have man: "read_manifest ?env (path_join bundle_dir ''manifest.json'') = Inr net_manifest"
    by code_simp
  have ents: "templates_entries net_manifest = Inr [EntryObject ?tc]"
    by code_simp
  have mem: "EntryObject ?tc \<in> set [EntryObject ?tc]" by simp
  have tf: "tc_template_file ?tc = Some ''net.yaml''" "''net.yaml'' \<noteq> []"
    "tc_accounts ?tc = Some [''111'']" "''111'' \<in> set [''111'']"
    by simp_all
  have readable: "read_template_file ?env (path_join bundle_dir ''net.yaml'') = Inr ''Resources: {}''"
    by code_simp
  have role: "\<forall>w. fst (sts_assume_role ?env (''arn:aws:iam::'' @ ''111'' @ '':role/'' @ ROLE_NAME)
                  (''rvm-deployment-'' @ ''111'') w) = None"
    by (simp add: scripted_env_def)
  have list: "\<forall>w. fst (cfn_list_stacks ?env ''111'' STATUS_FILTER w)
            = (?pages, Some (OtherError ''Throttling''))"
    by (simp add: scripted_env_def failing_listing_def)
  have orph: "orphaned_stacks (collect_pages ?pages)
        (expected_for ?env bundle_dir [EntryObject ?tc] ((), []) ''111'')
       = [''rvm-provisioned-old-111'']"
    by code_simp
  have fresh: "generate_stack_name ''net.yaml'' \<notin> set (map fst (collect_pages ?pages))"
    by code_simp
  note concl = listing_failure_keeps_reconciling[OF run man ents mem tf readable role list]
  from concl have c1: "Log WARNING ListFailed [exn_str (OtherError ''Throttling'')]
       \<in> set (appended ((), []) (snd (deploy_all ?env bundle_dir ((), []))))"
    by (simp add: run)
  from concl orph have c2: "Call (DeleteStack ''111'' ''rvm-provisioned-old-111'')
       \<in> set (appended ((), []) (snd (deploy_all ?env bundle_dir ((), []))))"
    by (simp add: run)
  from concl fresh have c3:
    "Call (CreateStack ''111'' (generate_stack_name ''net.yaml'') ''Resources: {}'' CAPABILITIES)
       \<in> set (appended ((), []) (snd (deploy_all ?env bundle_dir ((), []))))"
    by (simp add: run)
  from run man ents readable role list orph fresh c1 c2 c3 show ?thesis by blast
qed

text \<open>
  The claim as stated fails: the listing of account 111 delivers one page and then
  raises, and the run still deletes the stack listed on that page and still creates
  the stack of the manifest in account 111.
\<close>

theorem listing_failure_still_deletes_and_creates:
  "deploy_all (scripted_env (Inr net_manifest) failing_listing) bundle_dir ((), [])
     = (Inr \<lparr>success = [''net.yaml:111''], failed = [],
              deleted = [''rvm-provisioned-old-111:111'']\<rparr>,
        ((),
         [Call (AssumeRole ''arn:aws:iam::111:role/RvmWorkflowRole'' ''rvm-deployment-111''),
          Call (ListStacks ''111'' [''CREATE_COMPLETE'', ''UPDATE_COMPLETE'']),
          Log WARNING ListFailed [''Throttling''],
          Call (DeleteStack ''111'' ''rvm-provisioned-old-111''),
          Call (WaitStackDeleteComplete ''111'' ''rvm-provisioned-old-111''),
          Call (AssumeRole ''arn:aws:iam::111:role/RvmWorkflowRole'' ''rvm-deployment-111''),
          Call (CreateStack ''111'' ''rvm-provisioned-net'' ''Resources: {}''
                  [''CAPABILITY_NAMED_IAM''])]))"
  by code_simp

end
